theory Spec2Isabelle
  imports Main "HOL-Library.AList"
begin

section \<open>Authentication service: data model\<close>

text \<open>
  The theory embeds the authentication core of the auth service: the user model
  (\<^verbatim>\<open>models/user.model.ts\<close>), the token service (\<^verbatim>\<open>services/jwt.service.ts\<close>), the
  guard (\<^verbatim>\<open>middleware/auth.middleware.ts\<close>) and the controllers
  (\<^verbatim>\<open>controllers/auth.controller.ts\<close>, \<^verbatim>\<open>controllers/user.controller.ts\<close>).

  Conventions.
  \<^item> Time is the value of \<^verbatim>\<open>Date.now()\<close>: milliseconds since the epoch, a natural number.
    A \<^verbatim>\<open>Date\<close> is the same number. Every handler reads the clock once (\<open>now\<close>).
  \<^item> A string is the list of its characters (code units), taken among the first 256;
    its \<open>length\<close> is the \<^verbatim>\<open>length\<close> of the source.
  \<^item> A token is the string the client holds. The libraries the code calls are the
    environment \<open>env\<close>: the compact serialisation of \<^verbatim>\<open>jsonwebtoken\<close>
    (\<open>jwt_encode\<close>, \<open>jwt_decode\<close>), \<^verbatim>\<open>bcryptjs\<close> (\<open>bcrypt_hash\<close>, \<open>bcrypt_compare\<close>), the
    configuration object and \<^verbatim>\<open>process.env.NODE_ENV\<close>.
  \<^item> An exception is a value: a handler returns the state it leaves behind and
    either the error thrown or the response written.
  \<^item> Random strings (\<^verbatim>\<open>Math.random()\<close>) are inputs of the function that draws them.
  \<^item> A document the schema's validators reject makes \<^verbatim>\<open>save\<close> throw a
    \<^verbatim>\<open>ValidationError\<close>, which is not an \<^verbatim>\<open>AppError\<close>. Failures of the stores themselves
    (a lost connection) are not modelled, and every time stays below the largest
    \<^verbatim>\<open>Date\<close>.
\<close>

datatype role = Customer | Admin | Vendor

fun role_name :: "role \<Rightarrow> string" where
  "role_name Customer = ''customer''"
| "role_name Admin = ''admin''"
| "role_name Vendor = ''vendor''"

record stored_refresh =
  rt_token :: string
  rt_createdAt :: nat
  rt_expiresAt :: nat

text \<open>\<^verbatim>\<open>IUser\<close>; \<open>uid\<close> is \<^verbatim>\<open>_id.toString()\<close>, \<open>version\<close> is \<^verbatim>\<open>__v\<close>.\<close>

record user =
  uid :: string
  email :: string
  password :: string
  firstName :: string
  lastName :: string
  role :: role
  isActive :: bool
  isEmailVerified :: bool
  emailVerificationToken :: "string option"
  passwordResetToken :: "string option"
  passwordResetExpires :: "nat option"
  lastLogin :: "nat option"
  refreshTokens :: "stored_refresh list"
  createdAt :: nat
  updatedAt :: nat
  version :: nat

text \<open>
  The payload of a JSON web token. \<^verbatim>\<open>TokenPayload\<close> is \<open>userId\<close>, \<open>claim_email\<close>,
  \<open>claim_role\<close>; a refresh token carries \<open>userId\<close> and \<open>claim_type\<close>; the library adds
  \<^verbatim>\<open>iat\<close>, \<^verbatim>\<open>exp\<close>, \<^verbatim>\<open>iss\<close> and \<^verbatim>\<open>aud\<close>. \<open>signedWith\<close> is the secret whose signature
  the token carries.
\<close>

record claims =
  userId :: string
  claim_email :: "string option"
  claim_role :: "string option"
  claim_type :: "string option"
  claim_iat :: nat
  claim_exp :: "int option"
  claim_iss :: "string option"
  claim_aud :: "string option"

record jws =
  payload :: claims
  signedWith :: string

text \<open>
  \<^verbatim>\<open>config.jwt\<close>. The two lifetimes are the configured spans (\<^verbatim>\<open>'15m'\<close>, \<^verbatim>\<open>'7d'\<close> unless
  the environment variables say otherwise) as the library reads them: in seconds.
\<close>

record jwt_config =
  secret :: string
  refreshSecret :: string
  expiresIn :: nat
  refreshExpiresIn :: nat

record env =
  jwt_encode :: "jws \<Rightarrow> string"
  jwt_decode :: "string \<Rightarrow> jws option"
  bcrypt_hash :: "string \<Rightarrow> string"
  bcrypt_compare :: "string \<Rightarrow> string \<Rightarrow> bool"
  config_jwt :: jwt_config
  NODE_ENV :: "string option"

definition default_jwt_config :: jwt_config where
  "default_jwt_config =
     \<lparr>secret = ''your-secret-key'', refreshSecret = ''your-refresh-secret-key'',
      expiresIn = 15 * 60, refreshExpiresIn = 7 * 24 * 60 * 60\<rparr>"

section \<open>The jsonwebtoken library\<close>

text \<open>
  \<^verbatim>\<open>jwt.sign(payload, secret, {expiresIn, issuer, audience})\<close> stamps the payload with
  \<^verbatim>\<open>iat = Math.floor(Date.now() / 1000)\<close>, \<^verbatim>\<open>exp = iat + expiresIn\<close>, \<^verbatim>\<open>iss\<close> and, when
  given, \<^verbatim>\<open>aud\<close>, and serialises it with a signature under the secret. Nothing else
  enters the token: no identifier, no random value.
\<close>

definition jwt_sign ::
  "env \<Rightarrow> claims \<Rightarrow> string \<Rightarrow> nat \<Rightarrow> string \<Rightarrow> string option \<Rightarrow> nat \<Rightarrow> string" where
  "jwt_sign E pl key span issuer audience now =
     jwt_encode E
       \<lparr>payload = pl\<lparr>claim_iat := now div 1000,
                      claim_exp := Some (int (now div 1000 + span)),
                      claim_iss := Some issuer,
                      claim_aud := audience\<rparr>,
        signedWith = key\<rparr>"

text \<open>
  \<^verbatim>\<open>jwt.verify(token, secret, {issuer, audience})\<close> throws (here: \<open>None\<close>) on a malformed
  token, a signature made with another secret, an expiry that has been reached
  (\<^verbatim>\<open>floor(now / 1000) >= exp\<close>), a wrong audience or a wrong issuer; otherwise it
  returns the payload.
\<close>

definition jwt_verify ::
  "env \<Rightarrow> string \<Rightarrow> string \<Rightarrow> string \<Rightarrow> string option \<Rightarrow> nat \<Rightarrow> claims option" where
  "jwt_verify E tok key issuer audience now =
     (case jwt_decode E tok of
        None \<Rightarrow> None
      | Some j \<Rightarrow>
          if signedWith j \<noteq> key then None
          else if (case claim_exp (payload j) of
                     Some e \<Rightarrow> e \<le> int (now div 1000) | None \<Rightarrow> False) then None
          else if (case audience of
                     Some a \<Rightarrow> claim_aud (payload j) \<noteq> Some a | None \<Rightarrow> False) then None
          else if claim_iss (payload j) \<noteq> Some issuer then None
          else Some (payload j))"

text \<open>\<^verbatim>\<open>jwt.decode(token)\<close>: the payload, unverified; \<^verbatim>\<open>null\<close> for a malformed token.\<close>

definition jwt_decode_unverified :: "env \<Rightarrow> string \<Rightarrow> claims option" where
  "jwt_decode_unverified E tok = map_option payload (jwt_decode E tok)"

section \<open>The cache\<close>

text \<open>
  A key of the cache holds a value, the time-to-live it was stored with (seconds)
  and the time it was stored at. A key whose time-to-live has run out reads as absent.
\<close>

record entry =
  val :: string
  ttl :: nat
  setAt :: nat

type_synonym redis_store = "string \<rightharpoonup> entry"

definition setex :: "redis_store \<Rightarrow> string \<Rightarrow> nat \<Rightarrow> string \<Rightarrow> nat \<Rightarrow> redis_store" where
  "setex r k seconds v now = r(k \<mapsto> \<lparr>val = v, ttl = seconds, setAt = now\<rparr>)"

definition redis_get :: "redis_store \<Rightarrow> nat \<Rightarrow> string \<Rightarrow> string option" where
  "redis_get r now k =
     (case r k of
        None \<Rightarrow> None
      | Some e \<Rightarrow> if now < setAt e + ttl e * 1000 then Some (val e) else None)"

definition redis_del :: "redis_store \<Rightarrow> string \<Rightarrow> redis_store" where
  "redis_del r k = r(k := None)"

section \<open>JWTService\<close>

definition BLACKLIST_PREFIX :: string where
  "BLACKLIST_PREFIX = ''blacklist:''"

definition TOKEN_PREFIX :: string where
  "TOKEN_PREFIX = ''token:''"

record token_pair =
  accessToken :: string
  refreshToken :: string

definition generateAccessToken :: "env \<Rightarrow> nat \<Rightarrow> user \<Rightarrow> string" where
  "generateAccessToken E now u =
     jwt_sign E
       \<lparr>userId = uid u, claim_email = Some (email u), claim_role = Some (role_name (role u)),
        claim_type = None, claim_iat = 0, claim_exp = None, claim_iss = None, claim_aud = None\<rparr>
       (secret (config_jwt E)) (expiresIn (config_jwt E))
       ''ecommerce-auth'' (Some ''ecommerce-platform'') now"

definition generateRefreshToken :: "env \<Rightarrow> nat \<Rightarrow> user \<Rightarrow> string" where
  "generateRefreshToken E now u =
     jwt_sign E
       \<lparr>userId = uid u, claim_email = None, claim_role = None,
        claim_type = Some ''refresh'', claim_iat = 0, claim_exp = None, claim_iss = None,
        claim_aud = None\<rparr>
       (refreshSecret (config_jwt E)) (refreshExpiresIn (config_jwt E))
       ''ecommerce-auth'' None now"

definition generateTokenPair ::
  "env \<Rightarrow> nat \<Rightarrow> redis_store \<Rightarrow> user \<Rightarrow> redis_store \<times> token_pair" where
  "generateTokenPair E now r u =
     (let access = generateAccessToken E now u;
          refresh = generateRefreshToken E now u;
          r' = setex r (TOKEN_PREFIX @ refresh) (7 * 24 * 60 * 60) (uid u) now
      in (r', \<lparr>accessToken = access, refreshToken = refresh\<rparr>))"

definition verifyAccessToken :: "env \<Rightarrow> nat \<Rightarrow> string \<Rightarrow> claims option" where
  "verifyAccessToken E now tok =
     jwt_verify E tok (secret (config_jwt E)) ''ecommerce-auth'' (Some ''ecommerce-platform'') now"

definition verifyRefreshToken :: "env \<Rightarrow> nat \<Rightarrow> string \<Rightarrow> claims option" where
  "verifyRefreshToken E now tok =
     jwt_verify E tok (refreshSecret (config_jwt E)) ''ecommerce-auth'' None now"

text \<open>
  \<^verbatim>\<open>if (decoded && decoded.exp)\<close>: a missing payload, a missing \<^verbatim>\<open>exp\<close> and \<^verbatim>\<open>exp = 0\<close>
  are all falsy.
\<close>

definition blacklistToken :: "env \<Rightarrow> nat \<Rightarrow> redis_store \<Rightarrow> string \<Rightarrow> redis_store" where
  "blacklistToken E now r tok =
     (case jwt_decode_unverified E tok of
        None \<Rightarrow> r
      | Some decoded \<Rightarrow>
          (case claim_exp decoded of
             None \<Rightarrow> r
           | Some e \<Rightarrow>
               if e = 0 then r
               else let t = e - int (now div 1000)
                    in if t > 0 then setex r (BLACKLIST_PREFIX @ tok) (nat t) ''1'' now
                       else r))"

definition isTokenBlacklisted :: "redis_store \<Rightarrow> nat \<Rightarrow> string \<Rightarrow> bool" where
  "isTokenBlacklisted r now tok = (redis_get r now (BLACKLIST_PREFIX @ tok) = Some ''1'')"

definition invalidateRefreshToken :: "redis_store \<Rightarrow> string \<Rightarrow> redis_store" where
  "invalidateRefreshToken r tok = redis_del r (TOKEN_PREFIX @ tok)"

definition validateRefreshToken :: "redis_store \<Rightarrow> nat \<Rightarrow> string \<Rightarrow> string option" where
  "validateRefreshToken r now tok = redis_get r now (TOKEN_PREFIX @ tok)"

section \<open>Responses and errors\<close>

datatype json =
    JString string
  | JBool bool
  | JNumber int
  | JDate nat
  | JArray "json list"
  | JObject "(string \<times> json) list"

text \<open>\<^verbatim>\<open>ctx.status\<close> and \<^verbatim>\<open>ctx.body\<close>; the status is 200 once a body is set.\<close>

record response =
  status :: nat
  body :: json

text \<open>
  \<^verbatim>\<open>new AppError(message, statusCode, code)\<close>, and every other exception a handler may
  throw.
\<close>

datatype error = AppError string nat string | OtherError string

section \<open>The user model\<close>

text \<open>
  The setters of the schema: \<^verbatim>\<open>trim: true\<close> on \<open>email\<close>, \<open>firstName\<close> and \<open>lastName\<close>,
  \<^verbatim>\<open>lowercase: true\<close> on \<open>email\<close>. They run when a field is assigned and when a value
  is used in a filter. White space and capital letters are those among the first 256
  characters.
\<close>

definition is_space :: "char \<Rightarrow> bool" where
  "is_space c =
     (c \<in> set [CHR '' '', CHR 0x09, CHR 0x0A, CHR 0x0B, CHR 0x0C, CHR 0x0D, CHR 0xA0])"

definition trim :: "string \<Rightarrow> string" where
  "trim s = rev (dropWhile is_space (rev (dropWhile is_space s)))"

definition upper_letters :: string where
  "upper_letters =
     ''ABCDEFGHIJKLMNOPQRSTUVWXYZ'' @
          [CHR 0xC0, CHR 0xC1, CHR 0xC2, CHR 0xC3, CHR 0xC4, CHR 0xC5, CHR 0xC6, CHR 0xC7,
           CHR 0xC8, CHR 0xC9, CHR 0xCA, CHR 0xCB, CHR 0xCC, CHR 0xCD, CHR 0xCE, CHR 0xCF,
           CHR 0xD0, CHR 0xD1, CHR 0xD2, CHR 0xD3, CHR 0xD4, CHR 0xD5, CHR 0xD6, CHR 0xD8,
           CHR 0xD9, CHR 0xDA, CHR 0xDB, CHR 0xDC, CHR 0xDD, CHR 0xDE]"

definition lower_letters :: string where
  "lower_letters =
     ''abcdefghijklmnopqrstuvwxyz'' @
          [CHR 0xE0, CHR 0xE1, CHR 0xE2, CHR 0xE3, CHR 0xE4, CHR 0xE5, CHR 0xE6, CHR 0xE7,
           CHR 0xE8, CHR 0xE9, CHR 0xEA, CHR 0xEB, CHR 0xEC, CHR 0xED, CHR 0xEE, CHR 0xEF,
           CHR 0xF0, CHR 0xF1, CHR 0xF2, CHR 0xF3, CHR 0xF4, CHR 0xF5, CHR 0xF6, CHR 0xF8,
           CHR 0xF9, CHR 0xFA, CHR 0xFB, CHR 0xFC, CHR 0xFD, CHR 0xFE]"

definition lower_char :: "char \<Rightarrow> char" where
  "lower_char c =
     (case map_of (zip upper_letters lower_letters) c of
        Some l \<Rightarrow> l
      | None \<Rightarrow> c)"

definition toLowerCase :: "string \<Rightarrow> string" where
  "toLowerCase s = map lower_char s"

text \<open>
  The validators of the schema, which \<^verbatim>\<open>save\<close> runs on the document before the hook:
  \<open>email\<close>, \<open>password\<close>, \<open>firstName\<close> and \<open>lastName\<close> are required (not empty), the
  password has at least 6 characters (\<^verbatim>\<open>minlength: 6\<close>), and every entry of
  \<open>refreshTokens\<close> has a token. (The \<open>role\<close> is one of the three by its type.)
\<close>

definition validate :: "user \<Rightarrow> bool" where
  "validate u =
     (email u \<noteq> [] \<and> 6 \<le> length (password u) \<and> firstName u \<noteq> [] \<and> lastName u \<noteq> []
      \<and> list_all (\<lambda>t. rt_token t \<noteq> []) (refreshTokens u))"

text \<open>
  The \<^verbatim>\<open>pre('save')\<close> hook: the password is hashed when it differs from the loaded
  value. \<open>orig\<close> is the document as loaded, \<open>u\<close> the document being saved.
\<close>

definition pre_save :: "env \<Rightarrow> user \<Rightarrow> user \<Rightarrow> user" where
  "pre_save E orig u =
     (if password u = password orig then u
      else u\<lparr>password := bcrypt_hash E (password u)\<rparr>)"

definition comparePassword :: "env \<Rightarrow> user \<Rightarrow> string \<Rightarrow> bool" where
  "comparePassword E u candidatePassword = bcrypt_compare E candidatePassword (password u)"

text \<open>\<open>rnd\<close> is the concatenation of the two random strings.\<close>

definition generatePasswordResetToken :: "nat \<Rightarrow> string \<Rightarrow> user \<Rightarrow> string \<times> user" where
  "generatePasswordResetToken now rnd u =
     (rnd, u\<lparr>passwordResetToken := Some rnd, passwordResetExpires := Some (now + 3600000)\<rparr>)"

definition cleanExpiredTokens :: "nat \<Rightarrow> user \<Rightarrow> user" where
  "cleanExpiredTokens now u =
     u\<lparr>refreshTokens := filter (\<lambda>t. rt_expiresAt t > now) (refreshTokens u)\<rparr>"

text \<open>
  The plain object of a document: every field that is set, then the \<^verbatim>\<open>toJSON\<close>
  transform of the schema.
\<close>

definition opt_field :: "string \<Rightarrow> ('a \<Rightarrow> json) \<Rightarrow> 'a option \<Rightarrow> (string \<times> json) list" where
  "opt_field k f v = (case v of None \<Rightarrow> [] | Some x \<Rightarrow> [(k, f x)])"

definition stored_refresh_object :: "stored_refresh \<Rightarrow> json" where
  "stored_refresh_object t =
     JObject [(''token'', JString (rt_token t)), (''createdAt'', JDate (rt_createdAt t)),
              (''expiresAt'', JDate (rt_expiresAt t))]"

definition toObject :: "user \<Rightarrow> (string \<times> json) list" where
  "toObject u =
     [(''_id'', JString (uid u)),
      (''email'', JString (email u)),
      (''password'', JString (password u)),
      (''firstName'', JString (firstName u)),
      (''lastName'', JString (lastName u)),
      (''role'', JString (role_name (role u))),
      (''isActive'', JBool (isActive u)),
      (''isEmailVerified'', JBool (isEmailVerified u))]
     @ opt_field ''emailVerificationToken'' JString (emailVerificationToken u)
     @ opt_field ''passwordResetToken'' JString (passwordResetToken u)
     @ opt_field ''passwordResetExpires'' JDate (passwordResetExpires u)
     @ opt_field ''lastLogin'' JDate (lastLogin u)
     @ [(''refreshTokens'', JArray (map stored_refresh_object (refreshTokens u))),
        (''createdAt'', JDate (createdAt u)),
        (''updatedAt'', JDate (updatedAt u)),
        (''__v'', JNumber (int (version u)))]"

definition transform :: "(string \<times> json) list \<Rightarrow> (string \<times> json) list" where
  "transform ret =
     AList.delete ''__v''
       (AList.delete ''passwordResetToken''
         (AList.delete ''emailVerificationToken''
           (AList.delete ''refreshTokens''
             (AList.delete ''password'' ret))))"

definition toJSON :: "user \<Rightarrow> (string \<times> json) list" where
  "toJSON u = transform (toObject u)"

section \<open>The credential store\<close>

record state =
  users :: "user list"
  redis :: redis_store

text \<open>
  \<^verbatim>\<open>User.findOne({ email })\<close> and \<^verbatim>\<open>User.findById(id)\<close>: the first document that matches.
  The email of the filter goes through the setters of the schema (trimmed, lower case)
  before it is compared.
\<close>

definition findOne_email :: "user list \<Rightarrow> string \<Rightarrow> user option" where
  "findOne_email us e = find (\<lambda>u. email u = toLowerCase (trim e)) us"

definition findById :: "user list \<Rightarrow> string \<Rightarrow> user option" where
  "findById us i = find (\<lambda>u. uid u = i) us"

text \<open>
  \<^verbatim>\<open>User.findOne({passwordResetToken: token, passwordResetExpires: {$gt: Date.now()}})\<close>
\<close>

definition findOne_reset :: "user list \<Rightarrow> string \<Rightarrow> nat \<Rightarrow> user option" where
  "findOne_reset us tok now =
     find (\<lambda>u. passwordResetToken u = Some tok \<and>
               (case passwordResetExpires u of None \<Rightarrow> False | Some t \<Rightarrow> t > now)) us"

text \<open>
  \<^verbatim>\<open>user.save()\<close> for a loaded document: the validators run and a document they reject
  throws a \<^verbatim>\<open>ValidationError\<close>, nothing being stored; otherwise the hook runs,
  \<^verbatim>\<open>timestamps: true\<close> moves \<open>updatedAt\<close> to the time of the save when a field was
  modified, and the document replaces the stored one of the same \<^verbatim>\<open>_id\<close>.
\<close>

definition save ::
  "env \<Rightarrow> nat \<Rightarrow> user list \<Rightarrow> user \<Rightarrow> user \<Rightarrow> error + user list \<times> user" where
  "save E now us orig u =
     (if \<not> validate u then Inl (OtherError ''ValidationError'')
      else
        (let u1 = pre_save E orig u;
             u2 = (if u = orig then u1 else u1\<lparr>updatedAt := now\<rparr>)
         in Inr (map (\<lambda>d. if uid d = uid u2 then u2 else d) us, u2)))"

section \<open>The guard\<close>

definition startsWith :: "string \<Rightarrow> string \<Rightarrow> bool" where
  "startsWith s p = (take (length p) s = p)"

text \<open>\<^verbatim>\<open>s.split(c)\<close> for a one-character separator.\<close>

fun split :: "string \<Rightarrow> char \<Rightarrow> string list" where
  "split [] c = [[]]"
| "split (x # xs) c =
     (if x = c then [] # split xs c
      else (case split xs c of [] \<Rightarrow> [[x]] | w # ws \<Rightarrow> (x # w) # ws))"

text \<open>\<^verbatim>\<open>authHeader.split(' ')[1]\<close>; \<^verbatim>\<open>undefined\<close> (\<open>None\<close>) without a second piece.\<close>

definition header_token :: "string \<Rightarrow> string option" where
  "header_token h = (case split h CHR '' '' of _ # tok # _ \<Rightarrow> Some tok | _ \<Rightarrow> None)"

text \<open>
  \<open>next\<close> is the rest of the chain, run with \<^verbatim>\<open>ctx.user\<close> set. It is called inside the
  \<^verbatim>\<open>try\<close>: what it throws is caught too, and only an \<^verbatim>\<open>AppError\<close> is thrown again.
  A header that starts with \<^verbatim>\<open>'Bearer '\<close> has a second piece; without one the token
  would be \<^verbatim>\<open>undefined\<close>, which the verification rejects.
\<close>

definition authMiddleware ::
  "env \<Rightarrow> nat \<Rightarrow> redis_store \<Rightarrow> string option \<Rightarrow> (claims \<Rightarrow> error + 'a) \<Rightarrow> error + 'a" where
  "authMiddleware E now r authHeader next =
     (case authHeader of
        None \<Rightarrow> Inl (AppError ''No token provided'' 401 ''NO_TOKEN'')
      | Some h \<Rightarrow>
          if h = [] \<or> \<not> startsWith h ''Bearer ''
          then Inl (AppError ''No token provided'' 401 ''NO_TOKEN'')
          else
            (case header_token h of
               Some tok \<Rightarrow>
                 if isTokenBlacklisted r now tok
                 then Inl (AppError ''Token has been revoked'' 401 ''TOKEN_REVOKED'')
                 else
                   (case verifyAccessToken E now tok of
                      None \<Rightarrow> Inl (AppError ''Invalid or expired token'' 401 ''INVALID_TOKEN'')
                    | Some decoded \<Rightarrow>
                        (case next decoded of
                           Inl (OtherError _) \<Rightarrow>
                             Inl (AppError ''Invalid or expired token'' 401 ''INVALID_TOKEN'')
                         | res \<Rightarrow> res))
             | None \<Rightarrow> Inl (AppError ''Invalid or expired token'' 401 ''INVALID_TOKEN'')))"

definition requireRole :: "string list \<Rightarrow> claims option \<Rightarrow> (unit \<Rightarrow> error + 'a) \<Rightarrow> error + 'a" where
  "requireRole roles ctx_user next =
     (case ctx_user of
        None \<Rightarrow> Inl (AppError ''Authentication required'' 401 ''AUTH_REQUIRED'')
      | Some cu \<Rightarrow>
          (case claim_role cu of
             Some rl \<Rightarrow>
               if rl \<in> set roles then next ()
               else Inl (AppError ''Insufficient permissions'' 403 ''FORBIDDEN'')
           | None \<Rightarrow> Inl (AppError ''Insufficient permissions'' 403 ''FORBIDDEN'')))"

section \<open>AuthController\<close>

definition tokens_object :: "token_pair \<Rightarrow> json" where
  "tokens_object t =
     JObject [(''accessToken'', JString (accessToken t)),
              (''refreshToken'', JString (refreshToken t))]"

definition login :: "env \<Rightarrow> nat \<Rightarrow> state \<Rightarrow> string \<Rightarrow> string \<Rightarrow> state \<times> (error + response)" where
  "login E now st email_in password_in =
     (case findOne_email (users st) email_in of
        None \<Rightarrow> (st, Inl (AppError ''Invalid credentials'' 401 ''INVALID_CREDENTIALS''))
      | Some u \<Rightarrow>
          if \<not> comparePassword E u password_in
          then (st, Inl (AppError ''Invalid credentials'' 401 ''INVALID_CREDENTIALS''))
          else if \<not> isActive u
          then (st, Inl (AppError ''Account is deactivated'' 403 ''ACCOUNT_DEACTIVATED''))
          else
            (case save E now (users st) u (u\<lparr>lastLogin := Some now\<rparr>) of
               Inl err \<Rightarrow> (st, Inl err)
             | Inr (us', u') \<Rightarrow>
                 (let (r', tokens) = generateTokenPair E now (redis st) u'
                  in (\<lparr>users = us', redis = r'\<rparr>,
                      Inr \<lparr>status = 200,
                           body = JObject
                             [(''success'', JBool True),
                              (''message'', JString ''Login successful''),
                              (''data'', JObject [(''user'', JObject (toJSON u')),
                                                  (''tokens'', tokens_object tokens)])]\<rparr>))))"

text \<open>\<^verbatim>\<open>!userId\<close> holds for \<^verbatim>\<open>null\<close> and for the empty string.\<close>

definition refreshToken_handler ::
  "env \<Rightarrow> nat \<Rightarrow> state \<Rightarrow> string \<Rightarrow> state \<times> (error + response)" where
  "refreshToken_handler E now st tok =
     (case verifyRefreshToken E now tok of
        None \<Rightarrow> (st, Inl (AppError ''Invalid refresh token'' 401 ''INVALID_REFRESH_TOKEN''))
      | Some decoded \<Rightarrow>
          (case validateRefreshToken (redis st) now tok of
             None \<Rightarrow> (st, Inl (AppError ''Invalid refresh token'' 401 ''INVALID_REFRESH_TOKEN''))
           | Some i \<Rightarrow>
               if i = [] \<or> i \<noteq> userId decoded
               then (st, Inl (AppError ''Invalid refresh token'' 401 ''INVALID_REFRESH_TOKEN''))
               else
                 (case findById (users st) i of
                    None \<Rightarrow>
                      (st, Inl (AppError ''User not found or inactive'' 404 ''USER_NOT_FOUND''))
                  | Some u \<Rightarrow>
                      if \<not> isActive u
                      then (st, Inl (AppError ''User not found or inactive'' 404
                                       ''USER_NOT_FOUND''))
                      else
                        (let r1 = invalidateRefreshToken (redis st) tok;
                             (r2, tokens) = generateTokenPair E now r1 u
                         in (st\<lparr>redis := r2\<rparr>,
                             Inr \<lparr>status = 200,
                                  body = JObject
                                    [(''success'', JBool True),
                                     (''message'', JString ''Token refreshed successfully''),
                                     (''data'', JObject
                                        [(''tokens'', tokens_object tokens)])]\<rparr>)))))"

text \<open>
  \<open>logout\<close> runs behind the guard, so the header has a second piece (without one
  \<^verbatim>\<open>jwt.decode(undefined)\<close> is \<^verbatim>\<open>null\<close> and nothing is stored); \<open>refresh_in\<close> is the
  optional \<^verbatim>\<open>refreshToken\<close> of the body, falsy when absent or empty.
\<close>

definition logout ::
  "env \<Rightarrow> nat \<Rightarrow> state \<Rightarrow> string \<Rightarrow> string option \<Rightarrow> state \<times> (error + response)" where
  "logout E now st authHeader refresh_in =
     (let r1 = (case header_token authHeader of
                  Some tok \<Rightarrow> blacklistToken E now (redis st) tok
                | None \<Rightarrow> redis st);
          r2 = (case refresh_in of
                  None \<Rightarrow> r1
                | Some rt \<Rightarrow> if rt = [] then r1 else invalidateRefreshToken r1 rt)
      in (st\<lparr>redis := r2\<rparr>,
          Inr \<lparr>status = 200,
               body = JObject [(''success'', JBool True),
                               (''message'', JString ''Logout successful'')]\<rparr>))"

definition forgotPassword ::
  "env \<Rightarrow> nat \<Rightarrow> string \<Rightarrow> state \<Rightarrow> string \<Rightarrow> state \<times> (error + response)" where
  "forgotPassword E now rnd st email_in =
     (case findOne_email (users st) email_in of
        None \<Rightarrow>
          (st, Inr \<lparr>status = 200,
                    body = JObject
                      [(''success'', JBool True),
                       (''message'', JString ''If the email exists, a reset link has been sent'')]\<rparr>)
      | Some u \<Rightarrow>
          (let (resetToken, u1) = generatePasswordResetToken now rnd u
           in (case save E now (users st) u u1 of
                 Inl err \<Rightarrow> (st, Inl err)
               | Inr (us', u') \<Rightarrow>
                   (st\<lparr>users := us'\<rparr>,
                    Inr \<lparr>status = 200,
                         body = JObject
                           ([(''success'', JBool True),
                             (''message'',
                                JString ''If the email exists, a reset link has been sent'')]
                            @ (if NODE_ENV E = Some ''development''
                               then [(''resetToken'', JString resetToken)] else []))\<rparr>))))"

definition resetPassword ::
  "env \<Rightarrow> nat \<Rightarrow> state \<Rightarrow> string \<Rightarrow> string \<Rightarrow> state \<times> (error + response)" where
  "resetPassword E now st token_in password_in =
     (case findOne_reset (users st) token_in now of
        None \<Rightarrow> (st, Inl (AppError ''Invalid or expired reset token'' 400 ''INVALID_TOKEN''))
      | Some u \<Rightarrow>
          (case save E now (users st) u
                  (u\<lparr>password := password_in, passwordResetToken := None,
                     passwordResetExpires := None\<rparr>) of
             Inl err \<Rightarrow> (st, Inl err)
           | Inr (us', u') \<Rightarrow>
               (st\<lparr>users := us'\<rparr>,
                Inr \<lparr>status = 200,
                     body = JObject [(''success'', JBool True),
                                     (''message'', JString ''Password reset successful'')]\<rparr>)))"

section \<open>UserController\<close>

definition getProfile :: "state \<Rightarrow> claims \<Rightarrow> state \<times> (error + response)" where
  "getProfile st ctx_user =
     (case findById (users st) (userId ctx_user) of
        None \<Rightarrow> (st, Inl (AppError ''User not found'' 404 ''USER_NOT_FOUND''))
      | Some u \<Rightarrow>
          (st, Inr \<lparr>status = 200,
                    body = JObject [(''success'', JBool True),
                                    (''data'', JObject [(''user'', JObject (toJSON u))])]\<rparr>))"

text \<open>
  \<open>firstName_in\<close> and \<open>lastName_in\<close> are the optional fields of the body;
  \<^verbatim>\<open>if (firstName)\<close> is false for an absent field and for the empty string.
\<close>

definition updateProfile ::
  "env \<Rightarrow> nat \<Rightarrow> state \<Rightarrow> claims \<Rightarrow> string option \<Rightarrow> string option \<Rightarrow>
   state \<times> (error + response)" where
  "updateProfile E now st ctx_user firstName_in lastName_in =
     (case findById (users st) (userId ctx_user) of
        None \<Rightarrow> (st, Inl (AppError ''User not found'' 404 ''USER_NOT_FOUND''))
      | Some u \<Rightarrow>
          (let u1 = (case firstName_in of
                       None \<Rightarrow> u
                     | Some f \<Rightarrow> if f = [] then u else u\<lparr>firstName := trim f\<rparr>);
               u2 = (case lastName_in of
                       None \<Rightarrow> u1
                     | Some l \<Rightarrow> if l = [] then u1 else u1\<lparr>lastName := trim l\<rparr>)
           in (case save E now (users st) u u2 of
                 Inl err \<Rightarrow> (st, Inl err)
               | Inr (us', u') \<Rightarrow>
                   (st\<lparr>users := us'\<rparr>,
                    Inr \<lparr>status = 200,
                         body = JObject
                           [(''success'', JBool True),
                            (''message'', JString ''Profile updated successfully''),
                            (''data'', JObject [(''user'', JObject (toJSON u'))])]\<rparr>))))"

section \<open>An example deployment\<close>

text \<open>
  A concrete environment to run the definitions on: the serialisation is a finite
  table of tokens, the hash prefixes its input.
\<close>

definition example_env :: "(string \<times> jws) list \<Rightarrow> jwt_config \<Rightarrow> string option \<Rightarrow> env" where
  "example_env tbl cfg mode =
     \<lparr>jwt_encode = (\<lambda>j. case find (\<lambda>e. snd e = j) tbl of Some e \<Rightarrow> fst e | None \<Rightarrow> ''?''),
      jwt_decode = map_of tbl,
      bcrypt_hash = (\<lambda>p. ''$2a$'' @ p),
      bcrypt_compare = (\<lambda>c h. h = ''$2a$'' @ c),
      config_jwt = cfg,
      NODE_ENV = mode\<rparr>"

definition alice :: user where
  "alice =
     \<lparr>uid = ''u1'', email = ''alice@example.com'', password = ''$2a$secret123'',
      firstName = ''Alice'', lastName = ''Liddell'', role = Customer, isActive = True,
      isEmailVerified = False, emailVerificationToken = None, passwordResetToken = None,
      passwordResetExpires = None, lastLogin = None, refreshTokens = [],
      createdAt = 0, updatedAt = 0, version = 0\<rparr>"

definition bob :: user where
  "bob =
     \<lparr>uid = ''u2'', email = ''bob@example.com'', password = ''$2a$hunter22'',
      firstName = ''Bob'', lastName = ''Builder'', role = Admin, isActive = False,
      isEmailVerified = True, emailVerificationToken = None, passwordResetToken = None,
      passwordResetExpires = None, lastLogin = None, refreshTokens = [],
      createdAt = 0, updatedAt = 0, version = 0\<rparr>"

text \<open>The tokens of \<open>alice\<close> signed in second \<open>s\<close> under a configuration.\<close>

definition access_jws :: "jwt_config \<Rightarrow> user \<Rightarrow> nat \<Rightarrow> jws" where
  "access_jws cfg u s =
     \<lparr>payload = \<lparr>userId = uid u, claim_email = Some (email u),
                  claim_role = Some (role_name (role u)), claim_type = None, claim_iat = s,
                  claim_exp = Some (int (s + expiresIn cfg)),
                  claim_iss = Some ''ecommerce-auth'',
                  claim_aud = Some ''ecommerce-platform''\<rparr>,
      signedWith = secret cfg\<rparr>"

definition refresh_jws :: "jwt_config \<Rightarrow> user \<Rightarrow> nat \<Rightarrow> jws" where
  "refresh_jws cfg u s =
     \<lparr>payload = \<lparr>userId = uid u, claim_email = None, claim_role = None,
                  claim_type = Some ''refresh'', claim_iat = s,
                  claim_exp = Some (int (s + refreshExpiresIn cfg)),
                  claim_iss = Some ''ecommerce-auth'', claim_aud = None\<rparr>,
      signedWith = refreshSecret cfg\<rparr>"

definition example_tokens :: "(string \<times> jws) list" where
  "example_tokens =
     [(''A5'', access_jws default_jwt_config alice 5),
      (''R5'', refresh_jws default_jwt_config alice 5),
      (''A60'', access_jws default_jwt_config alice 60),
      (''R60'', refresh_jws default_jwt_config alice 60)]"

definition env0 :: env where
  "env0 = example_env example_tokens default_jwt_config None"

definition st0 :: state where
  "st0 = \<lparr>users = [alice, bob], redis = Map.empty\<rparr>"

text \<open>The store after \<open>alice\<close> has been deleted, her refresh token still registered.\<close>

definition st_gone :: state where
  "st_gone = \<lparr>users = [bob],
              redis = [''token:R5'' \<mapsto> \<lparr>val = ''u1'', ttl = 604800, setAt = 5000\<rparr>]\<rparr>"

text \<open>A cache in which the access token of \<open>alice\<close> has been revoked.\<close>

definition r_revoked :: redis_store where
  "r_revoked = [''blacklist:A5'' \<mapsto> \<lparr>val = ''1'', ttl = 805, setAt = 100000\<rparr>]"

text \<open>A handler that answers with the identity the guard attached.\<close>

definition echo_handler :: "claims \<Rightarrow> error + string \<times> string option \<times> string option" where
  "echo_handler c = Inr (userId c, claim_email c, claim_role c)"

text \<open>\<open>alice\<close> after a login at time 5000.\<close>

definition alice_in :: user where
  "alice_in = alice\<lparr>lastLogin := Some 5000, updatedAt := 5000\<rparr>"

text \<open>The body of a successful refresh that hands out the pair \<open>a\<close>, \<open>r\<close>.\<close>

definition refreshed :: "string \<Rightarrow> string \<Rightarrow> response" where
  "refreshed a r =
     \<lparr>status = 200,
      body = JObject
        [(''success'', JBool True),
         (''message'', JString ''Token refreshed successfully''),
         (''data'', JObject
            [(''tokens'', JObject [(''accessToken'', JString a),
                                   (''refreshToken'', JString r)])])]\<rparr>"

text \<open>A deployment with \<^verbatim>\<open>JWT_REFRESH_EXPIRES_IN=30d\<close>.\<close>

definition cfg30 :: jwt_config where
  "cfg30 = default_jwt_config\<lparr>refreshExpiresIn := 30 * 24 * 60 * 60\<rparr>"

definition env30 :: env where
  "env30 = example_env [(''A5x'', access_jws cfg30 alice 5), (''R5x'', refresh_jws cfg30 alice 5)]
             cfg30 None"

text \<open>A deployment with \<^verbatim>\<open>NODE_ENV=development\<close>.\<close>

definition env_dev :: env where
  "env_dev = example_env example_tokens default_jwt_config (Some ''development'')"

text \<open>The two fields every answer of \<open>forgotPassword\<close> starts with.\<close>

definition generic_message :: "(string \<times> json) list" where
  "generic_message =
     [(''success'', JBool True),
      (''message'', JString ''If the email exists, a reset link has been sent'')]"

text \<open>The body of a successful password reset.\<close>

definition reset_ok :: response where
  "reset_ok = \<lparr>status = 200,
               body = JObject [(''success'', JBool True),
                               (''message'', JString ''Password reset successful'')]\<rparr>"

text \<open>The filter of \<open>findOne_reset\<close>: the user holds the token and its expiry lies ahead.\<close>

definition holds_reset :: "string \<Rightarrow> nat \<Rightarrow> user \<Rightarrow> bool" where
  "holds_reset tok now u =
     (passwordResetToken u = Some tok
      \<and> (case passwordResetExpires u of None \<Rightarrow> False | Some t \<Rightarrow> now < t))"

text \<open>Users who asked for a reset at time 0, and stores that hold them.\<close>

definition alice_rt :: user where
  "alice_rt = alice\<lparr>passwordResetToken := Some ''tok'', passwordResetExpires := Some 3600000\<rparr>"

definition bob_rt :: user where
  "bob_rt = bob\<lparr>passwordResetToken := Some ''tok'', passwordResetExpires := Some 3600000\<rparr>"

definition st_reset :: state where
  "st_reset = \<lparr>users = [alice_rt, bob], redis = Map.empty\<rparr>"

definition st_shared :: state where
  "st_shared = \<lparr>users = [alice_rt, bob_rt], redis = Map.empty\<rparr>"

text \<open>The identity the guard attaches for the access token of \<open>alice\<close>.\<close>

definition alice_claims :: claims where
  "alice_claims = payload (access_jws default_jwt_config alice 5)"

text \<open>The body of a successful profile update.\<close>

definition profile_updated :: "user \<Rightarrow> response" where
  "profile_updated u =
     \<lparr>status = 200,
      body = JObject [(''success'', JBool True),
                      (''message'', JString ''Profile updated successfully''),
                      (''data'', JObject [(''user'', JObject (toJSON u))])]\<rparr>"

section \<open>Facts about the example deployment and the store\<close>

lemmas example_defs =
  env0_def example_env_def example_tokens_def access_jws_def refresh_jws_def
  default_jwt_config_def alice_def bob_def st0_def

lemmas service_defs =
  jwt_verify_def verifyRefreshToken_def verifyAccessToken_def validateRefreshToken_def
  redis_get_def TOKEN_PREFIX_def BLACKLIST_PREFIX_def isTokenBlacklisted_def
  findById_def

lemmas setter_defs =
  toLowerCase_def lower_char_def upper_letters_def lower_letters_def trim_def is_space_def

lemma norm_alice: "toLowerCase (trim ''alice@example.com'') = ''alice@example.com''"
  by (simp add: setter_defs)

lemma norm_alice_upper: "toLowerCase (trim ''ALICE@EXAMPLE.COM'') = ''alice@example.com''"
  by (simp add: setter_defs)

lemma norm_bob: "toLowerCase (trim ''bob@example.com'') = ''bob@example.com''"
  by (simp add: setter_defs)

lemma norm_bob_upper: "toLowerCase (trim '' Bob@Example.COM '') = ''bob@example.com''"
  by (simp add: setter_defs)

lemma norm_nobody: "toLowerCase (trim ''nobody@example.com'') = ''nobody@example.com''"
  by (simp add: setter_defs)

lemmas norm_defs = norm_alice norm_alice_upper norm_bob norm_bob_upper norm_nobody

lemmas model_defs =
  login_def refreshToken_handler_def generateTokenPair_def generateAccessToken_def
  generateRefreshToken_def jwt_sign_def invalidateRefreshToken_def
  redis_del_def setex_def findOne_email_def save_def pre_save_def validate_def
  comparePassword_def tokens_object_def

lemma lookup_alice: "findOne_email (users st0) ''alice@example.com'' = Some alice"
  by (simp add: findOne_email_def norm_defs st0_def alice_def)

lemma lookup_alice_upper: "findOne_email (users st0) ''ALICE@EXAMPLE.COM'' = Some alice"
  by (simp add: findOne_email_def norm_defs st0_def alice_def)

lemma lookup_bob: "findOne_email (users st0) ''bob@example.com'' = Some bob"
  by (simp add: findOne_email_def norm_defs st0_def alice_def bob_def)

lemma lookup_bob_upper: "findOne_email (users st0) '' Bob@Example.COM '' = Some bob"
  by (simp add: findOne_email_def norm_defs st0_def alice_def bob_def)

lemma lookup_nobody: "findOne_email (users st0) ''nobody@example.com'' = None"
  by (simp add: findOne_email_def norm_defs st0_def alice_def bob_def)

lemma validate_alice: "validate alice"
  by (simp add: validate_def alice_def)

lemma validate_bob: "validate bob"
  by (simp add: validate_def bob_def)

lemma valid_st0: "list_all validate (users st0)"
  by (simp add: st0_def validate_alice validate_bob)

lemma findOne_email_None:
  "findOne_email us e = None \<longleftrightarrow> toLowerCase (trim e) \<notin> email ` set us"
  by (force simp: findOne_email_def find_None_iff)

lemma find_list_all: "find P us = Some u \<Longrightarrow> list_all Q us \<Longrightarrow> Q u"
  by (auto simp: find_Some_iff list_all_iff)

section \<open>Login\<close>

text \<open>
  Claim C3. Login fails with \<^verbatim>\<open>INVALID_CREDENTIALS\<close> (401) when the lookup by email
  finds no user, and when the user found does not pass the password comparison; it fails
  with \<^verbatim>\<open>ACCOUNT_DEACTIVATED\<close> (403) when the password verifies and \<open>isActive\<close> is
  false. The password is compared first: the second part holds whatever \<open>isActive\<close>
  is, so a wrong password on a deactivated account reports \<^verbatim>\<open>INVALID_CREDENTIALS\<close>.
  The state is left as it was in all three cases. (The lookup compares the trimmed,
  lower-case form of the email: \<open>findOne_email_None\<close>.)
\<close>

theorem login_failure_precedence:
  "(findOne_email (users st) e = None \<longrightarrow>
      login E now st e p =
        (st, Inl (AppError ''Invalid credentials'' 401 ''INVALID_CREDENTIALS'')))
   \<and> (\<forall>u. findOne_email (users st) e = Some u \<longrightarrow>
         (\<not> comparePassword E u p \<longrightarrow>
            login E now st e p =
              (st, Inl (AppError ''Invalid credentials'' 401 ''INVALID_CREDENTIALS'')))
       \<and> (comparePassword E u p \<and> \<not> isActive u \<longrightarrow>
            login E now st e p =
              (st, Inl (AppError ''Account is deactivated'' 403 ''ACCOUNT_DEACTIVATED''))))"
  by (auto simp: login_def)

theorem login_failure_precedence_witness:
  "findOne_email (users st0) ''nobody@example.com'' = None
   \<and> login env0 7000 st0 ''nobody@example.com'' ''hunter22'' =
       (st0, Inl (AppError ''Invalid credentials'' 401 ''INVALID_CREDENTIALS''))
   \<and> findOne_email (users st0) ''bob@example.com'' = Some bob
   \<and> findOne_email (users st0) '' Bob@Example.COM '' = Some bob
   \<and> \<not> isActive bob
   \<and> \<not> comparePassword env0 bob ''wrong''
   \<and> login env0 7000 st0 ''bob@example.com'' ''wrong'' =
       (st0, Inl (AppError ''Invalid credentials'' 401 ''INVALID_CREDENTIALS''))
   \<and> login env0 7000 st0 '' Bob@Example.COM '' ''wrong'' =
       (st0, Inl (AppError ''Invalid credentials'' 401 ''INVALID_CREDENTIALS''))
   \<and> comparePassword env0 bob ''hunter22''
   \<and> login env0 7000 st0 ''bob@example.com'' ''hunter22'' =
       (st0, Inl (AppError ''Account is deactivated'' 403 ''ACCOUNT_DEACTIVATED''))
   \<and> login env0 7000 st0 '' Bob@Example.COM '' ''hunter22'' =
       (st0, Inl (AppError ''Account is deactivated'' 403 ''ACCOUNT_DEACTIVATED''))"
proof -
  have h3: "\<not> isActive bob" by (simp add: bob_def)
  have h4: "\<not> comparePassword env0 bob ''wrong''"
    by (simp add: comparePassword_def env0_def example_env_def bob_def)
  have h5: "comparePassword env0 bob ''hunter22''"
    by (simp add: comparePassword_def env0_def example_env_def bob_def)
  show ?thesis
    using lookup_nobody lookup_bob lookup_bob_upper h3 h4 h5
      login_failure_precedence [of st0 "''nobody@example.com''" env0 7000 "''hunter22''"]
      login_failure_precedence [of st0 "''bob@example.com''" env0 7000 "''wrong''"]
      login_failure_precedence [of st0 "''bob@example.com''" env0 7000 "''hunter22''"]
      login_failure_precedence [of st0 "'' Bob@Example.COM ''" env0 7000 "''wrong''"]
      login_failure_precedence [of st0 "'' Bob@Example.COM ''" env0 7000 "''hunter22''"]
    by simp
qed

section \<open>The blacklist\<close>

text \<open>
  Claim C4. \<open>blacklistToken\<close> reads \<^verbatim>\<open>exp\<close> from the unverified payload. When
  \<^verbatim>\<open>exp - floor(now / 1000)\<close> is positive, the key \<^verbatim>\<open>blacklist:<token>\<close> is stored with the
  marker \<^verbatim>\<open>'1'\<close> and exactly that time-to-live. When the token does not decode, has no
  \<^verbatim>\<open>exp\<close>, or the difference is zero or negative, the cache is left as it was.
\<close>

theorem blacklistToken_ttl:
  "(\<forall>d e. jwt_decode_unverified E tok = Some d \<and> claim_exp d = Some e
            \<and> e - int (now div 1000) > 0 \<longrightarrow>
       blacklistToken E now r tok =
         r(BLACKLIST_PREFIX @ tok \<mapsto>
             \<lparr>val = ''1'', ttl = nat (e - int (now div 1000)), setAt = now\<rparr>))
   \<and> (jwt_decode_unverified E tok = None
        \<or> (\<exists>d. jwt_decode_unverified E tok = Some d
              \<and> (claim_exp d = None
                  \<or> (\<exists>e. claim_exp d = Some e \<and> e - int (now div 1000) \<le> 0))) \<longrightarrow>
       blacklistToken E now r tok = r)"
  by (auto simp: blacklistToken_def setex_def)

theorem blacklistToken_ttl_witness:
  "jwt_decode_unverified env0 ''A5'' = Some (payload (access_jws default_jwt_config alice 5))
   \<and> claim_exp (payload (access_jws default_jwt_config alice 5)) = Some 905
   \<and> blacklistToken env0 100000 Map.empty ''A5'' =
       [''blacklist:A5'' \<mapsto> \<lparr>val = ''1'', ttl = 805, setAt = 100000\<rparr>]
   \<and> blacklistToken env0 905000 Map.empty ''A5'' = Map.empty
   \<and> jwt_decode_unverified env0 ''garbage'' = None
   \<and> blacklistToken env0 100000 Map.empty ''garbage'' = Map.empty"
proof -
  have h1: "jwt_decode_unverified env0 ''A5''
              = Some (payload (access_jws default_jwt_config alice 5))"
    by (simp add: jwt_decode_unverified_def example_defs)
  have h2: "claim_exp (payload (access_jws default_jwt_config alice 5)) = Some 905"
    by (simp add: example_defs)
  have h3: "jwt_decode_unverified env0 ''garbage'' = None"
    by (simp add: jwt_decode_unverified_def example_defs)
  show ?thesis
    using h1 h2 h3
      blacklistToken_ttl [of env0 "''A5''" 100000 Map.empty]
      blacklistToken_ttl [of env0 "''A5''" 905000 Map.empty]
      blacklistToken_ttl [of env0 "''garbage''" 100000 Map.empty]
    by (simp add: BLACKLIST_PREFIX_def)
qed

section \<open>The guard\<close>

lemma split_nonempty: "split xs c \<noteq> []"
  by (induction xs) (auto split: list.splits)

lemma hd_split: "hd (split xs c) = takeWhile (\<lambda>x. x \<noteq> c) xs"
  by (induction xs) (auto split: list.splits simp: split_nonempty)

lemma startsWith_Bearer:
  "startsWith h ''Bearer '' \<Longrightarrow> h = ''Bearer '' @ drop 7 h"
proof -
  assume "startsWith h ''Bearer ''"
  then have "take 7 h = ''Bearer ''"
    by (simp add: startsWith_def eval_nat_numeral)
  then show ?thesis
    using append_take_drop_id [of 7 h] by simp
qed

lemma split_Bearer:
  "split (''Bearer '' @ t) CHR '' '' = ''Bearer'' # split t CHR '' ''"
  by (simp split: list.splits add: split_nonempty)

lemma header_token_Bearer:
  assumes "startsWith h ''Bearer ''"
  shows "header_token h = Some (takeWhile (\<lambda>c. c \<noteq> CHR '' '') (drop 7 h))"
proof -
  obtain w ws where sp: "split (drop 7 h) CHR '' '' = w # ws"
    using split_nonempty [of "drop 7 h" "CHR '' ''"] by (cases "split (drop 7 h) CHR '' ''") auto
  then have w: "w = takeWhile (\<lambda>c. c \<noteq> CHR '' '') (drop 7 h)"
    using hd_split [of "drop 7 h" "CHR '' ''"] by simp
  have "split h CHR '' '' = ''Bearer'' # w # ws"
    using startsWith_Bearer [OF assms] split_Bearer [of "drop 7 h"] sp by simp
  then show ?thesis
    using w by (simp add: header_token_def)
qed

text \<open>
  Claim C2. The guard rejects with \<^verbatim>\<open>NO_TOKEN\<close> (401) when the Authorization header is
  missing or does not start with \<^verbatim>\<open>'Bearer '\<close>. Otherwise the token is the text between
  the first and the second space of the header; the guard rejects with
  \<^verbatim>\<open>TOKEN_REVOKED\<close> (401) when the token is blacklisted, whatever its verification would
  say; it rejects with \<^verbatim>\<open>INVALID_TOKEN\<close> (401) when the token is not blacklisted and its
  verification (signature, expiry, audience, issuer) fails; otherwise the handler runs
  with the verified payload attached (and an error of the handler that is not an
  \<^verbatim>\<open>AppError\<close> comes back as \<^verbatim>\<open>INVALID_TOKEN\<close>).
\<close>

theorem authMiddleware_order:
  "(authHeader = None \<or> (\<exists>h. authHeader = Some h \<and> \<not> startsWith h ''Bearer '') \<longrightarrow>
      authMiddleware E now r authHeader next =
        Inl (AppError ''No token provided'' 401 ''NO_TOKEN''))
   \<and> (\<forall>h. authHeader = Some h \<and> startsWith h ''Bearer '' \<longrightarrow>
        header_token h = Some (takeWhile (\<lambda>c. c \<noteq> CHR '' '') (drop 7 h))
        \<and> (\<forall>tok. header_token h = Some tok \<longrightarrow>
             (isTokenBlacklisted r now tok \<longrightarrow>
                authMiddleware E now r authHeader next =
                  Inl (AppError ''Token has been revoked'' 401 ''TOKEN_REVOKED''))
           \<and> (\<not> isTokenBlacklisted r now tok \<and> verifyAccessToken E now tok = None \<longrightarrow>
                authMiddleware E now r authHeader next =
                  Inl (AppError ''Invalid or expired token'' 401 ''INVALID_TOKEN''))
           \<and> (\<forall>decoded. \<not> isTokenBlacklisted r now tok
                 \<and> verifyAccessToken E now tok = Some decoded \<longrightarrow>
                authMiddleware E now r authHeader next =
                  (case next decoded of
                     Inl (OtherError x) \<Rightarrow>
                       Inl (AppError ''Invalid or expired token'' 401 ''INVALID_TOKEN'')
                   | res \<Rightarrow> res))))"
proof -
  have a: "authMiddleware E now r authHeader next =
             Inl (AppError ''No token provided'' 401 ''NO_TOKEN'')"
    if "authHeader = None \<or> (\<exists>h. authHeader = Some h \<and> \<not> startsWith h ''Bearer '')"
    using that by (auto simp: authMiddleware_def)
  have ne: "h \<noteq> []" if "startsWith h ''Bearer ''" for h
    using that by (auto simp: startsWith_def)
  have b: "authMiddleware E now r (Some h) next =
             (if isTokenBlacklisted r now tok
              then Inl (AppError ''Token has been revoked'' 401 ''TOKEN_REVOKED'')
              else (case verifyAccessToken E now tok of
                      None \<Rightarrow> Inl (AppError ''Invalid or expired token'' 401 ''INVALID_TOKEN'')
                    | Some decoded \<Rightarrow>
                        (case next decoded of
                           Inl (OtherError x) \<Rightarrow>
                             Inl (AppError ''Invalid or expired token'' 401 ''INVALID_TOKEN'')
                         | res \<Rightarrow> res)))"
    if "startsWith h ''Bearer ''" "header_token h = Some tok" for h tok
    using that ne [OF that(1)] by (simp add: authMiddleware_def)
  show ?thesis
    using a b header_token_Bearer by auto
qed


theorem authMiddleware_order_witness:
  "authMiddleware env0 6000 Map.empty None echo_handler =
       Inl (AppError ''No token provided'' 401 ''NO_TOKEN'')
   \<and> \<not> startsWith ''Basic abc'' ''Bearer ''
   \<and> authMiddleware env0 6000 Map.empty (Some ''Basic abc'') echo_handler =
       Inl (AppError ''No token provided'' 401 ''NO_TOKEN'')
   \<and> startsWith ''Bearer A5'' ''Bearer ''
   \<and> header_token ''Bearer A5'' = Some ''A5''
   \<and> isTokenBlacklisted r_revoked 200000 ''A5''
   \<and> authMiddleware env0 200000 r_revoked (Some ''Bearer A5'') echo_handler =
       Inl (AppError ''Token has been revoked'' 401 ''TOKEN_REVOKED'')
   \<and> startsWith ''Bearer garbage'' ''Bearer ''
   \<and> header_token ''Bearer garbage'' = Some ''garbage''
   \<and> \<not> isTokenBlacklisted Map.empty 6000 ''garbage''
   \<and> verifyAccessToken env0 6000 ''garbage'' = None
   \<and> authMiddleware env0 6000 Map.empty (Some ''Bearer garbage'') echo_handler =
       Inl (AppError ''Invalid or expired token'' 401 ''INVALID_TOKEN'')
   \<and> \<not> isTokenBlacklisted Map.empty 6000 ''A5''
   \<and> verifyAccessToken env0 6000 ''A5'' = Some (payload (access_jws default_jwt_config alice 5))
   \<and> authMiddleware env0 6000 Map.empty (Some ''Bearer A5'') echo_handler =
       Inr (''u1'', Some ''alice@example.com'', Some ''customer'')"
proof -
  have s1: "\<not> startsWith ''Basic abc'' ''Bearer ''"
    by (simp add: startsWith_def)
  have s2: "startsWith ''Bearer A5'' ''Bearer ''"
    by (simp add: startsWith_def)
  have s3: "startsWith ''Bearer garbage'' ''Bearer ''"
    by (simp add: startsWith_def)
  have t2: "header_token ''Bearer A5'' = Some ''A5''"
    by (simp add: header_token_def)
  have t3: "header_token ''Bearer garbage'' = Some ''garbage''"
    by (simp add: header_token_def)
  have b1: "isTokenBlacklisted r_revoked 200000 ''A5''"
    by (simp add: service_defs r_revoked_def)
  have b2: "\<not> isTokenBlacklisted Map.empty 6000 ''garbage''"
    by (simp add: service_defs)
  have b3: "\<not> isTokenBlacklisted Map.empty 6000 ''A5''"
    by (simp add: service_defs)
  have v1: "verifyAccessToken env0 6000 ''garbage'' = None"
    by (simp add: service_defs example_defs)
  have v2: "verifyAccessToken env0 6000 ''A5''
              = Some (payload (access_jws default_jwt_config alice 5))"
    by (simp add: service_defs example_defs)
  have e: "echo_handler (payload (access_jws default_jwt_config alice 5))
             = Inr (''u1'', Some ''alice@example.com'', Some ''customer'')"
    by (simp add: echo_handler_def example_defs)
  show ?thesis
    using s1 s2 s3 t2 t3 b1 b2 b3 v1 v2 e
      authMiddleware_order [of None env0 6000 Map.empty echo_handler]
      authMiddleware_order [of "Some ''Basic abc''" env0 6000 Map.empty echo_handler]
      authMiddleware_order [of "Some ''Bearer A5''" env0 200000 r_revoked echo_handler]
      authMiddleware_order [of "Some ''Bearer garbage''" env0 6000 Map.empty echo_handler]
      authMiddleware_order [of "Some ''Bearer A5''" env0 6000 Map.empty echo_handler]
    by simp
qed

section \<open>Serialisation of a user\<close>

lemma transform_conv:
  "map_of (transform ret) k =
     (if k = ''password'' \<or> k = ''refreshTokens'' \<or> k = ''emailVerificationToken''
         \<or> k = ''passwordResetToken'' \<or> k = ''__v''
      then None else map_of ret k)"
  unfolding transform_def by (simp only: delete_conv' fun_upd_apply) simp

lemma toObject_password: "map_of (toObject u) ''password'' = Some (JString (password u))"
  unfolding toObject_def by simp

lemma toObject_email: "map_of (toObject u) ''email'' = Some (JString (email u))"
  unfolding toObject_def by simp

text \<open>
  Claim C7. The object a user document is serialised to for a response has no
  \<open>password\<close>, no \<open>refreshTokens\<close>, no \<open>emailVerificationToken\<close> and no
  \<open>passwordResetToken\<close> key, whatever the stored record holds (the plain object before
  the transform does carry the password); the other fields, such as \<open>email\<close>, stay.
\<close>

theorem toJSON_strips_sensitive:
  "map_of (toJSON u) ''password'' = None
   \<and> map_of (toJSON u) ''refreshTokens'' = None
   \<and> map_of (toJSON u) ''emailVerificationToken'' = None
   \<and> map_of (toJSON u) ''passwordResetToken'' = None
   \<and> map_of (toObject u) ''password'' = Some (JString (password u))
   \<and> map_of (toJSON u) ''email'' = Some (JString (email u))"
  unfolding toJSON_def
  by (simp add: transform_conv toObject_password toObject_email)

section \<open>Refresh: failures\<close>

lemma refresh_fail_state:
  assumes "refreshToken_handler E now st tok = (st', Inl e)"
  shows "st' = st
        \<and> (e = AppError ''Invalid refresh token'' 401 ''INVALID_REFRESH_TOKEN''
            \<or> e = AppError ''User not found or inactive'' 404 ''USER_NOT_FOUND'')"
proof (cases "verifyRefreshToken E now tok")
  case None
  then show ?thesis using assms by (simp add: refreshToken_handler_def)
next
  case (Some d)
  note v = Some
  show ?thesis
  proof (cases "validateRefreshToken (redis st) now tok")
    case None
    then show ?thesis using assms v by (simp add: refreshToken_handler_def)
  next
    case (Some i)
    note r = Some
    show ?thesis
    proof (cases "i = [] \<or> i \<noteq> userId d")
      case True
      then show ?thesis using assms v r by (auto simp add: refreshToken_handler_def)
    next
      case False
      note m = False
      show ?thesis
      proof (cases "findById (users st) i")
        case None
        then show ?thesis using assms v r m by (auto simp add: refreshToken_handler_def)
      next
        case (Some u)
        then show ?thesis using assms v r m
          by (cases "isActive u")
             (auto simp add: refreshToken_handler_def Let_def split: prod.splits)
      qed
    qed
  qed
qed

lemma refresh_fail_signature:
  "verifyRefreshToken E now tok = None \<Longrightarrow>
     refreshToken_handler E now st tok =
       (st, Inl (AppError ''Invalid refresh token'' 401 ''INVALID_REFRESH_TOKEN''))"
  by (simp add: refreshToken_handler_def)

lemma refresh_fail_registry:
  "verifyRefreshToken E now tok = Some d \<Longrightarrow>
   validateRefreshToken (redis st) now tok \<noteq> Some (userId d) \<or> userId d = [] \<Longrightarrow>
     refreshToken_handler E now st tok =
       (st, Inl (AppError ''Invalid refresh token'' 401 ''INVALID_REFRESH_TOKEN''))"
  by (cases "validateRefreshToken (redis st) now tok") (auto simp: refreshToken_handler_def)

lemma refresh_fail_user:
  "verifyRefreshToken E now tok = Some d \<Longrightarrow>
   validateRefreshToken (redis st) now tok = Some (userId d) \<Longrightarrow> userId d \<noteq> [] \<Longrightarrow>
   \<forall>u. findById (users st) (userId d) = Some u \<longrightarrow> \<not> isActive u \<Longrightarrow>
     refreshToken_handler E now st tok =
       (st, Inl (AppError ''User not found or inactive'' 404 ''USER_NOT_FOUND''))"
  by (cases "findById (users st) (userId d)") (auto simp: refreshToken_handler_def)

text \<open>
  Claim C9. A refresh that fails leaves the state, and with it the registry entry of
  the presented token, as it was. It fails with \<^verbatim>\<open>INVALID_REFRESH_TOKEN\<close> (401) when
  the token does not verify, when the registry has no entry for it, and when the entry
  names another user than the token; with \<^verbatim>\<open>USER_NOT_FOUND\<close> (404) when the user is
  gone or inactive. These are the only errors.
\<close>

theorem refresh_failure_leaves_registry:
  "(verifyRefreshToken E now tok = None \<longrightarrow>
      refreshToken_handler E now st tok =
        (st, Inl (AppError ''Invalid refresh token'' 401 ''INVALID_REFRESH_TOKEN'')))
   \<and> (\<forall>d. verifyRefreshToken E now tok = Some d
          \<and> (validateRefreshToken (redis st) now tok \<noteq> Some (userId d) \<or> userId d = []) \<longrightarrow>
      refreshToken_handler E now st tok =
        (st, Inl (AppError ''Invalid refresh token'' 401 ''INVALID_REFRESH_TOKEN'')))
   \<and> (\<forall>d. verifyRefreshToken E now tok = Some d
          \<and> validateRefreshToken (redis st) now tok = Some (userId d) \<and> userId d \<noteq> []
          \<and> (\<forall>u. findById (users st) (userId d) = Some u \<longrightarrow> \<not> isActive u) \<longrightarrow>
      refreshToken_handler E now st tok =
        (st, Inl (AppError ''User not found or inactive'' 404 ''USER_NOT_FOUND'')))
   \<and> (\<forall>st' e. refreshToken_handler E now st tok = (st', Inl e) \<longrightarrow>
        st' = st
        \<and> redis st' (TOKEN_PREFIX @ tok) = redis st (TOKEN_PREFIX @ tok)
        \<and> (e = AppError ''Invalid refresh token'' 401 ''INVALID_REFRESH_TOKEN''
            \<or> e = AppError ''User not found or inactive'' 404 ''USER_NOT_FOUND''))"
proof (intro conjI allI impI)
  assume "verifyRefreshToken E now tok = None"
  then show "refreshToken_handler E now st tok =
        (st, Inl (AppError ''Invalid refresh token'' 401 ''INVALID_REFRESH_TOKEN''))"
    by (rule refresh_fail_signature)
next
  fix d
  assume "verifyRefreshToken E now tok = Some d
          \<and> (validateRefreshToken (redis st) now tok \<noteq> Some (userId d) \<or> userId d = [])"
  then show "refreshToken_handler E now st tok =
        (st, Inl (AppError ''Invalid refresh token'' 401 ''INVALID_REFRESH_TOKEN''))"
    using refresh_fail_registry by blast
next
  fix d
  assume "verifyRefreshToken E now tok = Some d
          \<and> validateRefreshToken (redis st) now tok = Some (userId d) \<and> userId d \<noteq> []
          \<and> (\<forall>u. findById (users st) (userId d) = Some u \<longrightarrow> \<not> isActive u)"
  then show "refreshToken_handler E now st tok =
        (st, Inl (AppError ''User not found or inactive'' 404 ''USER_NOT_FOUND''))"
    using refresh_fail_user by blast
next
  fix st' e
  assume a: "refreshToken_handler E now st tok = (st', Inl e)"
  show "st' = st" using refresh_fail_state [OF a] by simp
  then show "redis st' (TOKEN_PREFIX @ tok) = redis st (TOKEN_PREFIX @ tok)" by simp
  show "e = AppError ''Invalid refresh token'' 401 ''INVALID_REFRESH_TOKEN''
            \<or> e = AppError ''User not found or inactive'' 404 ''USER_NOT_FOUND''"
    using refresh_fail_state [OF a] by simp
qed

theorem refresh_failure_leaves_registry_witness:
  "verifyRefreshToken env0 6000 ''garbage'' = None
   \<and> refreshToken_handler env0 6000 st_gone ''garbage'' =
       (st_gone, Inl (AppError ''Invalid refresh token'' 401 ''INVALID_REFRESH_TOKEN''))
   \<and> verifyRefreshToken env0 6000 ''R5'' = Some (payload (refresh_jws default_jwt_config alice 5))
   \<and> validateRefreshToken (redis st0) 6000 ''R5'' = None
   \<and> refreshToken_handler env0 6000 st0 ''R5'' =
       (st0, Inl (AppError ''Invalid refresh token'' 401 ''INVALID_REFRESH_TOKEN''))
   \<and> validateRefreshToken (redis st_gone) 6000 ''R5'' = Some ''u1''
   \<and> findById (users st_gone) ''u1'' = None
   \<and> refreshToken_handler env0 6000 st_gone ''R5'' =
       (st_gone, Inl (AppError ''User not found or inactive'' 404 ''USER_NOT_FOUND''))
   \<and> validateRefreshToken
         (redis (fst (refreshToken_handler env0 6000 st_gone ''R5''))) 6000 ''R5'' = Some ''u1''"
proof -
  have h1: "verifyRefreshToken env0 6000 ''garbage'' = None"
    by (simp add: service_defs example_defs)
  have h2: "verifyRefreshToken env0 6000 ''R5''
              = Some (payload (refresh_jws default_jwt_config alice 5))"
    by (simp add: service_defs example_defs)
  have h3: "validateRefreshToken (redis st0) 6000 ''R5'' = None"
    by (simp add: service_defs example_defs)
  have h4: "validateRefreshToken (redis st_gone) 6000 ''R5'' = Some ''u1''"
    by (simp add: service_defs st_gone_def)
  have h5: "findById (users st_gone) ''u1'' = None"
    by (simp add: service_defs st_gone_def bob_def)
  have h6: "userId (payload (refresh_jws default_jwt_config alice 5)) = ''u1''"
    by (simp add: example_defs)
  show ?thesis
    using h1 h2 h3 h4 h5 h6
      refresh_failure_leaves_registry [of env0 6000 "''garbage''" st_gone]
      refresh_failure_leaves_registry [of env0 6000 "''R5''" st0]
      refresh_failure_leaves_registry [of env0 6000 "''R5''" st_gone]
    by simp
qed


section \<open>Refresh: rotation\<close>

text \<open>
  A refresh token is a function of the user, the configuration and the second it is
  signed in.
\<close>

lemma generateRefreshToken_jws:
  "generateRefreshToken E now u =
     jwt_encode E (refresh_jws (config_jwt E) u (now div 1000))"
  by (simp add: generateRefreshToken_def jwt_sign_def refresh_jws_def)

lemma refresh_jws_lifetime:
  "claim_exp (payload (refresh_jws cfg u s)) = Some (int (s + refreshExpiresIn cfg))
   \<and> claim_iat (payload (refresh_jws cfg u s)) = s"
  by (simp add: refresh_jws_def)

lemma generateRefreshToken_same_second:
  "now div 1000 = t div 1000 \<Longrightarrow> generateRefreshToken E now u = generateRefreshToken E t u"
  by (simp add: generateRefreshToken_def jwt_sign_def)

lemma generateTokenPair_registry:
  "generateTokenPair E now r u = (r', tp) \<Longrightarrow>
     refreshToken tp = generateRefreshToken E now u
     \<and> r' = r(TOKEN_PREFIX @ generateRefreshToken E now u \<mapsto>
               \<lparr>val = uid u, ttl = 604800, setAt = now\<rparr>)"
  by (auto simp: generateTokenPair_def Let_def setex_def)

lemma refresh_success_state:
  assumes "refreshToken_handler E now st tok = (st', Inr res)"
  shows "\<exists>u. findById (users st) (the (validateRefreshToken (redis st) now tok)) = Some u
           \<and> isActive u
           \<and> st' = st\<lparr>redis := (redis st)
                  (TOKEN_PREFIX @ tok := None,
                   TOKEN_PREFIX @ generateRefreshToken E now u \<mapsto>
                     \<lparr>val = uid u, ttl = 604800, setAt = now\<rparr>)\<rparr>"
proof (cases "verifyRefreshToken E now tok")
  case None
  then show ?thesis using assms by (simp add: refreshToken_handler_def)
next
  case (Some d)
  note v = Some
  show ?thesis
  proof (cases "validateRefreshToken (redis st) now tok")
    case None
    then show ?thesis using assms v by (simp add: refreshToken_handler_def)
  next
    case (Some i)
    note r = Some
    show ?thesis
    proof (cases "i = [] \<or> i \<noteq> userId d")
      case True
      then show ?thesis using assms v r by (auto simp add: refreshToken_handler_def)
    next
      case False
      note m = False
      show ?thesis
      proof (cases "findById (users st) i")
        case None
        then show ?thesis using assms v r m by (auto simp add: refreshToken_handler_def)
      next
        case (Some u)
        then show ?thesis using assms v r m
          by (cases "isActive u")
             (auto simp add: refreshToken_handler_def generateTokenPair_def Let_def setex_def
                invalidateRefreshToken_def redis_del_def split: prod.splits)
      qed
    qed
  qed
qed

lemma refresh_rotation_fresh_token:
  assumes ok: "refreshToken_handler E now st tok = (st', Inr res)"
    and fresh: "\<forall>u. findById (users st) (the (validateRefreshToken (redis st) now tok)) = Some u
                  \<longrightarrow> generateRefreshToken E now u \<noteq> tok"
  shows "refreshToken_handler E now' st' tok =
           (st', Inl (AppError ''Invalid refresh token'' 401 ''INVALID_REFRESH_TOKEN''))"
proof -
  obtain u where u: "findById (users st) (the (validateRefreshToken (redis st) now tok)) = Some u"
    and st': "st' = st\<lparr>redis := (redis st)
                  (TOKEN_PREFIX @ tok := None,
                   TOKEN_PREFIX @ generateRefreshToken E now u \<mapsto>
                     \<lparr>val = uid u, ttl = 604800, setAt = now\<rparr>)\<rparr>"
    using refresh_success_state [OF ok] by blast
  have "generateRefreshToken E now u \<noteq> tok"
    using fresh u by blast
  then have "redis st' (TOKEN_PREFIX @ tok) = None"
    using st' by auto
  then have "validateRefreshToken (redis st') now' tok = None"
    by (simp add: validateRefreshToken_def redis_get_def)
  then show ?thesis
    by (cases "verifyRefreshToken E now' tok") (simp_all add: refreshToken_handler_def)
qed

text \<open>
  Claim C1 (the code departs from it). A refresh deletes the registry entry of the
  presented token and then registers the token it issues. When the refresh runs in the
  second the presented token was signed in, the token it issues is the presented one,
  so the entry is back: here \<open>alice\<close> logs in at 5000 ms and gets \<open>R5\<close>, refreshes
  with \<open>R5\<close> at 5400 ms and is handed \<open>R5\<close> again, and a second refresh with \<open>R5\<close>, at
  60000 ms, succeeds. (\<open>refresh_rotation_fresh_token\<close>: the second refresh fails as
  claimed whenever the first one issued another token than the presented one.)
\<close>

theorem refresh_replay_same_second:
  "fst (login env0 5000 st0 ''alice@example.com'' ''secret123'') =
       \<lparr>users = [alice_in, bob],
        redis = [''token:R5'' \<mapsto> \<lparr>val = ''u1'', ttl = 604800, setAt = 5000\<rparr>]\<rparr>
   \<and> refreshToken_handler env0 5400
         \<lparr>users = [alice_in, bob],
          redis = [''token:R5'' \<mapsto> \<lparr>val = ''u1'', ttl = 604800, setAt = 5000\<rparr>]\<rparr> ''R5'' =
       (\<lparr>users = [alice_in, bob],
         redis = [''token:R5'' \<mapsto> \<lparr>val = ''u1'', ttl = 604800, setAt = 5400\<rparr>]\<rparr>,
        Inr (refreshed ''A5'' ''R5''))
   \<and> refreshToken_handler env0 60000
         \<lparr>users = [alice_in, bob],
          redis = [''token:R5'' \<mapsto> \<lparr>val = ''u1'', ttl = 604800, setAt = 5400\<rparr>]\<rparr> ''R5'' =
       (\<lparr>users = [alice_in, bob],
         redis = [''token:R60'' \<mapsto> \<lparr>val = ''u1'', ttl = 604800, setAt = 60000\<rparr>]\<rparr>,
        Inr (refreshed ''A60'' ''R60''))"
proof (intro conjI)
  show "fst (login env0 5000 st0 ''alice@example.com'' ''secret123'') =
       \<lparr>users = [alice_in, bob],
        redis = [''token:R5'' \<mapsto> \<lparr>val = ''u1'', ttl = 604800, setAt = 5000\<rparr>]\<rparr>"
    by (simp add: model_defs service_defs example_defs norm_defs alice_in_def Let_def)
  show "refreshToken_handler env0 5400
         \<lparr>users = [alice_in, bob],
          redis = [''token:R5'' \<mapsto> \<lparr>val = ''u1'', ttl = 604800, setAt = 5000\<rparr>]\<rparr> ''R5'' =
       (\<lparr>users = [alice_in, bob],
         redis = [''token:R5'' \<mapsto> \<lparr>val = ''u1'', ttl = 604800, setAt = 5400\<rparr>]\<rparr>,
        Inr (refreshed ''A5'' ''R5''))"
    by (simp add: model_defs service_defs example_defs alice_in_def refreshed_def Let_def)
  show "refreshToken_handler env0 60000
         \<lparr>users = [alice_in, bob],
          redis = [''token:R5'' \<mapsto> \<lparr>val = ''u1'', ttl = 604800, setAt = 5400\<rparr>]\<rparr> ''R5'' =
       (\<lparr>users = [alice_in, bob],
         redis = [''token:R60'' \<mapsto> \<lparr>val = ''u1'', ttl = 604800, setAt = 60000\<rparr>]\<rparr>,
        Inr (refreshed ''A60'' ''R60''))"
    by (simp add: model_defs service_defs example_defs alice_in_def refreshed_def Let_def)
qed


section \<open>The registry entry of a refresh token\<close>

text \<open>
  Claim C8 (the code departs from it). \<open>generateTokenPair\<close> registers the refresh
  token for 604800 seconds whatever the configuration says
  (\<open>generateTokenPair_registry\<close>), while the token is signed to expire after the
  configured lifetime (\<open>generateRefreshToken_jws\<close>, \<open>refresh_jws_lifetime\<close>). With a
  configured lifetime of 30 days the token of \<open>alice\<close> is signed for 2592000 seconds and
  registered for 604800: on the eighth day it still verifies and the registry no
  longer knows it.
\<close>

theorem registry_ttl_is_seven_days:
  "refreshExpiresIn (config_jwt env30) = 2592000
   \<and> generateTokenPair env30 5000 Map.empty alice =
       ([''token:R5x'' \<mapsto> \<lparr>val = ''u1'', ttl = 604800, setAt = 5000\<rparr>],
        \<lparr>accessToken = ''A5x'', refreshToken = ''R5x''\<rparr>)
   \<and> map_option (\<lambda>j. (claim_iat (payload j), claim_exp (payload j))) (jwt_decode env30 ''R5x'')
       = Some (5, Some 2592005)
   \<and> verifyRefreshToken env30 691200000 ''R5x'' = Some (payload (refresh_jws cfg30 alice 5))
   \<and> validateRefreshToken [''token:R5x'' \<mapsto> \<lparr>val = ''u1'', ttl = 604800, setAt = 5000\<rparr>]
         691200000 ''R5x'' = None"
proof (intro conjI)
  show "refreshExpiresIn (config_jwt env30) = 2592000"
    by (simp add: env30_def cfg30_def example_defs)
  show "generateTokenPair env30 5000 Map.empty alice =
       ([''token:R5x'' \<mapsto> \<lparr>val = ''u1'', ttl = 604800, setAt = 5000\<rparr>],
        \<lparr>accessToken = ''A5x'', refreshToken = ''R5x''\<rparr>)"
    by (simp add: model_defs service_defs env30_def cfg30_def example_defs Let_def)
  show "map_option (\<lambda>j. (claim_iat (payload j), claim_exp (payload j)))
          (jwt_decode env30 ''R5x'') = Some (5, Some 2592005)"
    by (simp add: env30_def cfg30_def example_defs)
  show "verifyRefreshToken env30 691200000 ''R5x'' = Some (payload (refresh_jws cfg30 alice 5))"
    by (simp add: service_defs env30_def cfg30_def example_defs)
  show "validateRefreshToken [''token:R5x'' \<mapsto> \<lparr>val = ''u1'', ttl = 604800, setAt = 5000\<rparr>]
         691200000 ''R5x'' = None"
    by (simp add: service_defs)
qed

section \<open>Forgotten passwords\<close>

lemma validate_reset_token:
  "validate (u\<lparr>passwordResetToken := t, passwordResetExpires := x\<rparr>) = validate u"
  by (simp add: validate_def)

lemma forgotPassword_response:
  assumes "list_all validate (users st)"
  shows "snd (forgotPassword E now rnd st e) =
           Inr \<lparr>status = 200,
                body = JObject (generic_message @
                  (if findOne_email (users st) e \<noteq> None \<and> NODE_ENV E = Some ''development''
                   then [(''resetToken'', JString rnd)] else []))\<rparr>"
proof (cases "findOne_email (users st) e")
  case None
  then show ?thesis
    by (simp add: forgotPassword_def generic_message_def)
next
  case (Some u)
  then have "validate u"
    using assms unfolding findOne_email_def by (rule find_list_all)
  then show ?thesis
    using Some
    by (simp add: forgotPassword_def generatePasswordResetToken_def save_def
          validate_reset_token generic_message_def Let_def)
qed

text \<open>
  Claim C5, as stated, fails: with \<^verbatim>\<open>NODE_ENV=development\<close> the answer for the email
  of a user carries the reset token, the answer for an unknown email does not.
\<close>

theorem forgotPassword_development_counterexample:
  "findOne_email (users st0) ''alice@example.com'' = Some alice
   \<and> findOne_email (users st0) ''nobody@example.com'' = None
   \<and> snd (forgotPassword env_dev 5000 ''k3x9q'' st0 ''alice@example.com'') =
       Inr \<lparr>status = 200,
            body = JObject (generic_message @ [(''resetToken'', JString ''k3x9q'')])\<rparr>
   \<and> snd (forgotPassword env_dev 5000 ''k3x9q'' st0 ''nobody@example.com'') =
       Inr \<lparr>status = 200, body = JObject generic_message\<rparr>
   \<and> snd (forgotPassword env_dev 5000 ''k3x9q'' st0 ''alice@example.com'') \<noteq>
       snd (forgotPassword env_dev 5000 ''k3x9q'' st0 ''nobody@example.com'')"
proof -
  have dev: "NODE_ENV env_dev = Some ''development''"
    by (simp add: env_dev_def example_env_def)
  have a: "snd (forgotPassword env_dev 5000 ''k3x9q'' st0 ''alice@example.com'') =
       Inr \<lparr>status = 200,
            body = JObject (generic_message @ [(''resetToken'', JString ''k3x9q'')])\<rparr>"
    using forgotPassword_response [OF valid_st0, of env_dev 5000 "''k3x9q''" "''alice@example.com''"]
    by (simp only: lookup_alice dev) simp
  have n: "snd (forgotPassword env_dev 5000 ''k3x9q'' st0 ''nobody@example.com'') =
       Inr \<lparr>status = 200, body = JObject generic_message\<rparr>"
    using forgotPassword_response [OF valid_st0, of env_dev 5000 "''k3x9q''" "''nobody@example.com''"]
    by (simp only: lookup_nobody) simp
  have d: "snd (forgotPassword env_dev 5000 ''k3x9q'' st0 ''alice@example.com'') \<noteq>
       snd (forgotPassword env_dev 5000 ''k3x9q'' st0 ''nobody@example.com'')"
    by (simp only: a n) simp
  show ?thesis
    using lookup_alice lookup_nobody a n d by (intro conjI)
qed

text \<open>
  Claim C5, amended. In a store whose records satisfy the schema, \<open>forgotPassword\<close>
  never fails: for every email it answers 200 with \<open>success = true\<close> and the same
  generic message, followed by the reset token exactly when \<^verbatim>\<open>NODE_ENV\<close> is
  \<^verbatim>\<open>development\<close> and the email is that of a user, and by nothing otherwise. Outside
  development the answer is therefore the same for every email, every time and every
  token drawn, so it does not tell whether the email was found.
\<close>

theorem forgotPassword_generic:
  "list_all validate (users st) \<longrightarrow>
     snd (forgotPassword E now rnd st e) =
       Inr \<lparr>status = 200,
            body = JObject (generic_message @
              (if findOne_email (users st) e \<noteq> None \<and> NODE_ENV E = Some ''development''
               then [(''resetToken'', JString rnd)] else []))\<rparr>
     \<and> (NODE_ENV E \<noteq> Some ''development'' \<longrightarrow>
          snd (forgotPassword E now rnd st e) = snd (forgotPassword E now' rnd' st e'))"
proof (intro impI conjI)
  assume v: "list_all validate (users st)"
  show "snd (forgotPassword E now rnd st e) =
       Inr \<lparr>status = 200,
            body = JObject (generic_message @
              (if findOne_email (users st) e \<noteq> None \<and> NODE_ENV E = Some ''development''
               then [(''resetToken'', JString rnd)] else []))\<rparr>"
    by (rule forgotPassword_response [OF v])
  assume nd: "NODE_ENV E \<noteq> Some ''development''"
  show "snd (forgotPassword E now rnd st e) = snd (forgotPassword E now' rnd' st e')"
    using nd
    by (simp only: forgotPassword_response [OF v, of E now rnd e]
          forgotPassword_response [OF v, of E now' rnd' e']) simp
qed

theorem forgotPassword_generic_witness:
  "list_all validate (users st0)
   \<and> NODE_ENV env0 \<noteq> Some ''development''
   \<and> NODE_ENV env_dev = Some ''development''
   \<and> findOne_email (users st0) ''alice@example.com'' = Some alice
   \<and> findOne_email (users st0) ''ALICE@EXAMPLE.COM'' = Some alice
   \<and> findOne_email (users st0) ''nobody@example.com'' = None
   \<and> snd (forgotPassword env0 5000 ''k3x9q'' st0 ''alice@example.com'') =
       Inr \<lparr>status = 200, body = JObject generic_message\<rparr>
   \<and> snd (forgotPassword env0 5000 ''k3x9q'' st0 ''alice@example.com'') =
       snd (forgotPassword env0 7000 ''p0o9i'' st0 ''nobody@example.com'')
   \<and> snd (forgotPassword env_dev 5000 ''k3x9q'' st0 ''ALICE@EXAMPLE.COM'') =
       Inr \<lparr>status = 200,
            body = JObject (generic_message @ [(''resetToken'', JString ''k3x9q'')])\<rparr>
   \<and> snd (forgotPassword env_dev 5000 ''k3x9q'' st0 ''nobody@example.com'') =
       Inr \<lparr>status = 200, body = JObject generic_message\<rparr>"
proof -
  have h1: "NODE_ENV env0 \<noteq> Some ''development''"
    by (simp add: env0_def example_env_def)
  have h2: "NODE_ENV env_dev = Some ''development''"
    by (simp add: env_dev_def example_env_def)
  have a: "snd (forgotPassword env0 5000 ''k3x9q'' st0 ''alice@example.com'') =
       Inr \<lparr>status = 200, body = JObject generic_message\<rparr>"
    using valid_st0 h1
      forgotPassword_generic [of st0 env0 5000 "''k3x9q''" "''alice@example.com''"]
    by simp
  have b: "snd (forgotPassword env0 5000 ''k3x9q'' st0 ''alice@example.com'') =
       snd (forgotPassword env0 7000 ''p0o9i'' st0 ''nobody@example.com'')"
    using valid_st0 h1
      forgotPassword_generic [of st0 env0 5000 "''k3x9q''" "''alice@example.com''"
        7000 "''p0o9i''" "''nobody@example.com''"]
    by blast
  have c: "snd (forgotPassword env_dev 5000 ''k3x9q'' st0 ''ALICE@EXAMPLE.COM'') =
       Inr \<lparr>status = 200,
            body = JObject (generic_message @ [(''resetToken'', JString ''k3x9q'')])\<rparr>"
    using valid_st0 h2 lookup_alice_upper
      forgotPassword_generic [of st0 env_dev 5000 "''k3x9q''" "''ALICE@EXAMPLE.COM''"]
    by simp
  have d: "snd (forgotPassword env_dev 5000 ''k3x9q'' st0 ''nobody@example.com'') =
       Inr \<lparr>status = 200, body = JObject generic_message\<rparr>"
    using valid_st0 lookup_nobody
      forgotPassword_generic [of st0 env_dev 5000 "''k3x9q''" "''nobody@example.com''"]
    by simp
  show ?thesis
    using valid_st0 h1 h2 lookup_alice lookup_alice_upper lookup_nobody a b c d
    by (intro conjI)
qed

section \<open>Password reset\<close>

lemma findOne_reset_None:
  "findOne_reset us tok now = None \<longleftrightarrow> (\<forall>u \<in> set us. \<not> holds_reset tok now u)"
  by (auto simp: findOne_reset_def find_None_iff holds_reset_def)

lemma findOne_reset_Some:
  "findOne_reset us tok now = Some u \<Longrightarrow> u \<in> set us \<and> holds_reset tok now u"
  by (auto simp: findOne_reset_def find_Some_iff holds_reset_def)

lemma resetPassword_fail:
  "findOne_reset (users st) tok now = None \<Longrightarrow>
     resetPassword E now st tok pw =
       (st, Inl (AppError ''Invalid or expired reset token'' 400 ''INVALID_TOKEN''))"
  by (simp add: resetPassword_def)

lemma validate_new_password:
  "validate u \<Longrightarrow>
     validate (u\<lparr>password := pw, passwordResetToken := None, passwordResetExpires := None\<rparr>)
       = (6 \<le> length pw)"
  by (simp add: validate_def)

lemma resetPassword_short:
  assumes "findOne_reset (users st) tok now = Some u" and "length pw < 6"
  shows "resetPassword E now st tok pw = (st, Inl (OtherError ''ValidationError''))"
  using assms by (simp add: resetPassword_def save_def validate_def)

lemma resetPassword_ok:
  assumes "findOne_reset (users st) tok now = Some u"
    and "validate u" and "6 \<le> length pw"
    and "u' = u\<lparr>password := (if pw = password u then pw else bcrypt_hash E pw),
                 passwordResetToken := None, passwordResetExpires := None, updatedAt := now\<rparr>"
  shows "resetPassword E now st tok pw =
       (st\<lparr>users := map (\<lambda>d. if uid d = uid u then u' else d) (users st)\<rparr>, Inr reset_ok)"
proof -
  have ne: "u\<lparr>password := pw, passwordResetToken := None, passwordResetExpires := None\<rparr> \<noteq> u"
  proof
    assume "u\<lparr>password := pw, passwordResetToken := None, passwordResetExpires := None\<rparr> = u"
    then have "passwordResetToken
                 (u\<lparr>password := pw, passwordResetToken := None, passwordResetExpires := None\<rparr>)
               = passwordResetToken u"
      by simp
    then show False
      using findOne_reset_Some [OF assms(1)] by (simp add: holds_reset_def)
  qed
  show ?thesis
    using assms ne validate_new_password [OF assms(2), of pw]
    by (simp add: resetPassword_def save_def pre_save_def reset_ok_def Let_def)
qed

lemma reset_then_none:
  assumes only: "\<forall>v \<in> set us. passwordResetToken v = Some tok \<longrightarrow> uid v = uid u"
    and cleared: "passwordResetToken u' = None"
  shows "findOne_reset (map (\<lambda>d. if uid d = uid u then u' else d) us) tok now2 = None"
proof -
  have "\<not> holds_reset tok now2 d'"
    if "d' \<in> set (map (\<lambda>d. if uid d = uid u then u' else d) us)" for d'
  proof -
    from that obtain d where d: "d \<in> set us"
      and d': "d' = (if uid d = uid u then u' else d)"
      by auto
    show ?thesis
    proof (cases "uid d = uid u")
      case True
      then show ?thesis using d' cleared by (simp add: holds_reset_def)
    next
      case False
      then have "passwordResetToken d \<noteq> Some tok" using only d by blast
      then show ?thesis using d' False by (simp add: holds_reset_def)
    qed
  qed
  then show ?thesis
    by (simp add: findOne_reset_None)
qed

lemmas reset_defs =
  resetPassword_def findOne_reset_def save_def pre_save_def validate_def reset_ok_def
  alice_rt_def bob_rt_def st_reset_def st_shared_def alice_def bob_def env0_def example_env_def

text \<open>
  Claim C6, as stated, fails in two places. A second use of the same token need not
  fail: nothing keeps two users from holding the same reset token, and then the first
  use resets one of them and the second use the other. And holding a valid token is not
  enough to succeed: a new password of fewer than 6 characters is rejected by the
  schema when the document is saved, and the token stays.
\<close>

theorem resetPassword_shared_token_counterexample:
  "resetPassword env0 5000 st_shared ''tok'' ''newpass1'' =
       (\<lparr>users = [alice\<lparr>password := ''$2a$newpass1'', updatedAt := 5000\<rparr>, bob_rt],
         redis = Map.empty\<rparr>, Inr reset_ok)
   \<and> resetPassword env0 6000
         \<lparr>users = [alice\<lparr>password := ''$2a$newpass1'', updatedAt := 5000\<rparr>, bob_rt],
          redis = Map.empty\<rparr> ''tok'' ''newpass2'' =
       (\<lparr>users = [alice\<lparr>password := ''$2a$newpass1'', updatedAt := 5000\<rparr>,
                  bob\<lparr>password := ''$2a$newpass2'', updatedAt := 6000\<rparr>],
         redis = Map.empty\<rparr>, Inr reset_ok)
   \<and> findOne_reset (users st_reset) ''tok'' 5000 = Some alice_rt
   \<and> resetPassword env0 5000 st_reset ''tok'' ''abc'' =
       (st_reset, Inl (OtherError ''ValidationError''))"
  by (simp add: reset_defs Let_def)

text \<open>
  Claim C6, amended. \<open>generatePasswordResetToken\<close> sets the token and an expiry one
  hour (3600000 ms) after \<open>now\<close>. In a store whose records satisfy the schema,
  \<open>resetPassword\<close> succeeds if and only if some user holds exactly this token with an
  expiry strictly after \<open>now\<close> and the new password has at least 6 characters. When no
  user holds the token unexpired it fails with \<^verbatim>\<open>INVALID_TOKEN\<close> (400); when one does
  and the password is shorter it fails with a \<^verbatim>\<open>ValidationError\<close>; the state is
  unchanged in both cases. When it succeeds, the first such user gets the new password
  (hashed by the hook of \<^verbatim>\<open>save\<close>), loses the token and the expiry, and nothing else in
  the state changes but \<open>updatedAt\<close> of that user; a second use of the token then
  fails with \<^verbatim>\<open>INVALID_TOKEN\<close> (400), at any time and with any password, provided no
  other user holds the same token.
\<close>

theorem resetPassword_window:
  "snd (generatePasswordResetToken now rnd u0) =
       u0\<lparr>passwordResetToken := Some rnd, passwordResetExpires := Some (now + 3600000)\<rparr>
   \<and> (list_all validate (users st) \<longrightarrow>
        ((\<exists>res. snd (resetPassword E now st tok pw) = Inr res)
          \<longleftrightarrow> (\<exists>u \<in> set (users st). passwordResetToken u = Some tok
                 \<and> (\<exists>t. passwordResetExpires u = Some t \<and> now < t))
              \<and> 6 \<le> length pw))
   \<and> ((\<forall>u \<in> set (users st). \<not> (passwordResetToken u = Some tok
               \<and> (\<exists>t. passwordResetExpires u = Some t \<and> now < t))) \<longrightarrow>
        resetPassword E now st tok pw =
          (st, Inl (AppError ''Invalid or expired reset token'' 400 ''INVALID_TOKEN'')))
   \<and> (\<forall>u. findOne_reset (users st) tok now = Some u \<and> length pw < 6 \<longrightarrow>
        resetPassword E now st tok pw = (st, Inl (OtherError ''ValidationError'')))
   \<and> (\<forall>u u'. findOne_reset (users st) tok now = Some u \<and> validate u \<and> 6 \<le> length pw
          \<and> u' = u\<lparr>password := (if pw = password u then pw else bcrypt_hash E pw),
                    passwordResetToken := None, passwordResetExpires := None,
                    updatedAt := now\<rparr> \<longrightarrow>
        resetPassword E now st tok pw =
          (st\<lparr>users := map (\<lambda>d. if uid d = uid u then u' else d) (users st)\<rparr>, Inr reset_ok)
        \<and> ((\<forall>v \<in> set (users st). passwordResetToken v = Some tok \<longrightarrow> uid v = uid u) \<longrightarrow>
             resetPassword E now2 (fst (resetPassword E now st tok pw)) tok pw2 =
               (fst (resetPassword E now st tok pw),
                Inl (AppError ''Invalid or expired reset token'' 400 ''INVALID_TOKEN''))))"
proof (intro conjI allI impI)
  show "snd (generatePasswordResetToken now rnd u0) =
       u0\<lparr>passwordResetToken := Some rnd, passwordResetExpires := Some (now + 3600000)\<rparr>"
    by (simp add: generatePasswordResetToken_def)
next
  have hr: "holds_reset tok now u \<longleftrightarrow> (passwordResetToken u = Some tok
               \<and> (\<exists>t. passwordResetExpires u = Some t \<and> now < t))" for u
    by (auto simp: holds_reset_def split: option.splits)
  show "(\<exists>res. snd (resetPassword E now st tok pw) = Inr res)
          \<longleftrightarrow> (\<exists>u \<in> set (users st). passwordResetToken u = Some tok
                 \<and> (\<exists>t. passwordResetExpires u = Some t \<and> now < t))
              \<and> 6 \<le> length pw"
    if valid: "list_all validate (users st)"
  proof (cases "findOne_reset (users st) tok now")
    case None
    then show ?thesis
      using resetPassword_fail [OF None, of E pw] findOne_reset_None [of "users st" tok now] hr
      by auto
  next
    case (Some u)
    have v: "validate u"
      using Some valid unfolding findOne_reset_def by (rule find_list_all)
    have ex: "\<exists>u \<in> set (users st). passwordResetToken u = Some tok
                 \<and> (\<exists>t. passwordResetExpires u = Some t \<and> now < t)"
      using findOne_reset_Some [OF Some] hr by blast
    show ?thesis
    proof (cases "6 \<le> length pw")
      case True
      then show ?thesis
        using resetPassword_ok [OF Some v True refl, of E] ex by simp
    next
      case False
      then have "length pw < 6" by simp
      then show ?thesis
        using resetPassword_short [OF Some, of pw E] False by simp
    qed
  qed
  show "resetPassword E now st tok pw =
          (st, Inl (AppError ''Invalid or expired reset token'' 400 ''INVALID_TOKEN''))"
    if "\<forall>u \<in> set (users st). \<not> (passwordResetToken u = Some tok
               \<and> (\<exists>t. passwordResetExpires u = Some t \<and> now < t))"
    using that resetPassword_fail [of st tok now E pw] findOne_reset_None [of "users st" tok now] hr
    by auto
next
  fix u
  assume "findOne_reset (users st) tok now = Some u \<and> length pw < 6"
  then show "resetPassword E now st tok pw = (st, Inl (OtherError ''ValidationError''))"
    using resetPassword_short by blast
next
  fix u u'
  assume a: "findOne_reset (users st) tok now = Some u \<and> validate u \<and> 6 \<le> length pw
          \<and> u' = u\<lparr>password := (if pw = password u then pw else bcrypt_hash E pw),
                    passwordResetToken := None, passwordResetExpires := None,
                    updatedAt := now\<rparr>"
  then have f: "findOne_reset (users st) tok now = Some u"
    and v: "validate u" and len: "6 \<le> length pw"
    and u': "u' = u\<lparr>password := (if pw = password u then pw else bcrypt_hash E pw),
                    passwordResetToken := None, passwordResetExpires := None,
                    updatedAt := now\<rparr>"
    by simp_all
  show ok: "resetPassword E now st tok pw =
          (st\<lparr>users := map (\<lambda>d. if uid d = uid u then u' else d) (users st)\<rparr>, Inr reset_ok)"
    by (rule resetPassword_ok [OF f v len u'])
  assume only: "\<forall>v \<in> set (users st). passwordResetToken v = Some tok \<longrightarrow> uid v = uid u"
  have "passwordResetToken u' = None" using u' by simp
  then show "resetPassword E now2 (fst (resetPassword E now st tok pw)) tok pw2 =
               (fst (resetPassword E now st tok pw),
                Inl (AppError ''Invalid or expired reset token'' 400 ''INVALID_TOKEN''))"
    using reset_then_none [OF only, of u' now2] ok
    by (simp add: resetPassword_fail)
qed

theorem resetPassword_window_witness:
  "list_all validate (users st_reset)
   \<and> findOne_reset (users st_reset) ''tok'' 5000 = Some alice_rt
   \<and> resetPassword env0 5000 st_reset ''tok'' ''newpass1'' =
       (\<lparr>users = [alice\<lparr>password := ''$2a$newpass1'', updatedAt := 5000\<rparr>, bob],
         redis = Map.empty\<rparr>, Inr reset_ok)
   \<and> resetPassword env0 6000 (fst (resetPassword env0 5000 st_reset ''tok'' ''newpass1''))
         ''tok'' ''newpass2'' =
       (fst (resetPassword env0 5000 st_reset ''tok'' ''newpass1''),
        Inl (AppError ''Invalid or expired reset token'' 400 ''INVALID_TOKEN''))
   \<and> resetPassword env0 3600000 st_reset ''tok'' ''newpass1'' =
       (st_reset, Inl (AppError ''Invalid or expired reset token'' 400 ''INVALID_TOKEN''))
   \<and> resetPassword env0 5000 st_reset ''other'' ''newpass1'' =
       (st_reset, Inl (AppError ''Invalid or expired reset token'' 400 ''INVALID_TOKEN''))
   \<and> resetPassword env0 5000 st_reset ''tok'' ''abc'' =
       (st_reset, Inl (OtherError ''ValidationError''))"
proof -
  have valid: "list_all validate (users st_reset)"
    by (simp add: reset_defs)
  have f: "findOne_reset (users st_reset) ''tok'' 5000 = Some alice_rt"
    by (simp add: reset_defs)
  have v: "validate alice_rt"
    by (simp add: reset_defs)
  have only: "\<forall>v \<in> set (users st_reset). passwordResetToken v = Some ''tok''
                \<longrightarrow> uid v = uid alice_rt"
    by (simp add: reset_defs)
  have n1: "\<forall>u \<in> set (users st_reset). \<not> (passwordResetToken u = Some ''tok''
               \<and> (\<exists>t. passwordResetExpires u = Some t \<and> 3600000 < t))"
    by (simp add: reset_defs)
  have n2: "\<forall>u \<in> set (users st_reset). \<not> (passwordResetToken u = Some ''other''
               \<and> (\<exists>t. passwordResetExpires u = Some t \<and> 5000 < t))"
    by (simp add: reset_defs)
  have len: "6 \<le> length ''newpass1''" and short: "length ''abc'' < 6"
    by simp_all
  have first: "resetPassword env0 5000 st_reset ''tok'' ''newpass1'' =
       (\<lparr>users = [alice\<lparr>password := ''$2a$newpass1'', updatedAt := 5000\<rparr>, bob],
         redis = Map.empty\<rparr>, Inr reset_ok)"
    by (simp add: reset_defs Let_def)
  have second: "resetPassword env0 6000
         (fst (resetPassword env0 5000 st_reset ''tok'' ''newpass1'')) ''tok'' ''newpass2'' =
       (fst (resetPassword env0 5000 st_reset ''tok'' ''newpass1''),
        Inl (AppError ''Invalid or expired reset token'' 400 ''INVALID_TOKEN''))"
    using f v len only
      resetPassword_window [where now = 5000 and E = env0 and st = st_reset
        and tok = "''tok''" and pw = "''newpass1''" and ?now2.0 = 6000 and ?pw2.0 = "''newpass2''"]
    by blast
  have late: "resetPassword env0 3600000 st_reset ''tok'' ''newpass1'' =
       (st_reset, Inl (AppError ''Invalid or expired reset token'' 400 ''INVALID_TOKEN''))"
    using n1
      resetPassword_window [where now = 3600000 and E = env0 and st = st_reset
        and tok = "''tok''" and pw = "''newpass1''"]
    by blast
  have other: "resetPassword env0 5000 st_reset ''other'' ''newpass1'' =
       (st_reset, Inl (AppError ''Invalid or expired reset token'' 400 ''INVALID_TOKEN''))"
    using n2
      resetPassword_window [where now = 5000 and E = env0 and st = st_reset
        and tok = "''other''" and pw = "''newpass1''"]
    by blast
  have weak: "resetPassword env0 5000 st_reset ''tok'' ''abc'' =
       (st_reset, Inl (OtherError ''ValidationError''))"
    using f short
      resetPassword_window [where now = 5000 and E = env0 and st = st_reset
        and tok = "''tok''" and pw = "''abc''"]
    by blast
  show ?thesis
    using valid f first second late other weak by (intro conjI)
qed

section \<open>Profile update\<close>

lemma findById_Some: "findById us i = Some u \<Longrightarrow> uid u = i \<and> u \<in> set us"
  by (auto simp: findById_def find_Some_iff)

lemma findById_replace:
  "findById us i = Some u \<Longrightarrow> uid u' = i \<Longrightarrow>
     findById (map (\<lambda>d. if uid d = i then u' else d) us) i = Some u'"
  unfolding findById_def
  by (induction us) (auto split: if_splits)

lemma findById_replace_other:
  "j \<noteq> i \<Longrightarrow> uid u' = i \<Longrightarrow>
     findById (map (\<lambda>d. if uid d = i then u' else d) us) j = findById us j"
  unfolding findById_def
  by (induction us) auto

lemma names_unchanged:
  "(u\<lparr>firstName := f, lastName := l\<rparr> = u) = (f = firstName u \<and> l = lastName u)"
proof
  assume e: "u\<lparr>firstName := f, lastName := l\<rparr> = u"
  have "firstName (u\<lparr>firstName := f, lastName := l\<rparr>) = f"
    and "lastName (u\<lparr>firstName := f, lastName := l\<rparr>) = l"
    by simp_all
  then show "f = firstName u \<and> l = lastName u"
    using e by simp
next
  assume "f = firstName u \<and> l = lastName u"
  then show "u\<lparr>firstName := f, lastName := l\<rparr> = u"
    by simp
qed

lemma validate_names:
  "validate u \<Longrightarrow> validate (u\<lparr>firstName := f, lastName := l\<rparr>) = (f \<noteq> [] \<and> l \<noteq> [])"
  by (simp add: validate_def)

lemma updateProfile_names:
  assumes f: "findById (users st) (userId cu) = Some u"
    and f': "f' = (case fn of None \<Rightarrow> firstName u
                   | Some f \<Rightarrow> if f = [] then firstName u else trim f)"
    and l': "l' = (case ln of None \<Rightarrow> lastName u
                   | Some l \<Rightarrow> if l = [] then lastName u else trim l)"
  shows "updateProfile E now st cu fn ln =
           (case save E now (users st) u (u\<lparr>firstName := f', lastName := l'\<rparr>) of
              Inl err \<Rightarrow> (st, Inl err)
            | Inr (us', w) \<Rightarrow> (st\<lparr>users := us'\<rparr>, Inr (profile_updated w)))"
proof -
  have u2: "(case ln of None \<Rightarrow> (case fn of None \<Rightarrow> u
                   | Some f \<Rightarrow> if f = [] then u else u\<lparr>firstName := trim f\<rparr>)
             | Some l \<Rightarrow> if l = [] then (case fn of None \<Rightarrow> u
                   | Some f \<Rightarrow> if f = [] then u else u\<lparr>firstName := trim f\<rparr>)
                 else (case fn of None \<Rightarrow> u
                   | Some f \<Rightarrow> if f = [] then u else u\<lparr>firstName := trim f\<rparr>)
                   \<lparr>lastName := trim l\<rparr>)
        = u\<lparr>firstName := f', lastName := l'\<rparr>"
    unfolding f' l' by (cases fn; cases ln) simp_all
  show ?thesis
    unfolding updateProfile_def profile_updated_def Let_def
    by (simp only: f option.case u2)
qed

lemma save_invalid:
  "\<not> validate u2 \<Longrightarrow> save E now us u u2 = Inl (OtherError ''ValidationError'')"
  by (simp add: save_def)

lemma save_unchanged:
  "validate u \<Longrightarrow> save E now us u u = Inr (map (\<lambda>d. if uid d = uid u then u else d) us, u)"
  by (simp add: save_def pre_save_def)

lemma save_changed:
  "validate u2 \<Longrightarrow> u2 \<noteq> u \<Longrightarrow> password u2 = password u \<Longrightarrow>
     save E now us u u2 =
       Inr (map (\<lambda>d. if uid d = uid u2 then u2\<lparr>updatedAt := now\<rparr> else d) us,
            u2\<lparr>updatedAt := now\<rparr>)"
  by (simp add: save_def pre_save_def Let_def)

lemma updateProfile_invalid:
  assumes f: "findById (users st) (userId cu) = Some u" and v: "validate u"
    and f': "f' = (case fn of None \<Rightarrow> firstName u
                   | Some f \<Rightarrow> if f = [] then firstName u else trim f)"
    and l': "l' = (case ln of None \<Rightarrow> lastName u
                   | Some l \<Rightarrow> if l = [] then lastName u else trim l)"
    and blank: "f' = [] \<or> l' = []"
  shows "updateProfile E now st cu fn ln = (st, Inl (OtherError ''ValidationError''))"
proof -
  have nv: "\<not> validate (u\<lparr>firstName := f', lastName := l'\<rparr>)"
    using blank validate_names [OF v, where f = f' and l = l'] by blast
  show ?thesis
    by (simp only: updateProfile_names [OF f f' l'] save_invalid [OF nv] sum.case)
qed

lemma updateProfile_valid:
  assumes f: "findById (users st) (userId cu) = Some u" and v: "validate u"
    and f': "f' = (case fn of None \<Rightarrow> firstName u
                   | Some f \<Rightarrow> if f = [] then firstName u else trim f)"
    and l': "l' = (case ln of None \<Rightarrow> lastName u
                   | Some l \<Rightarrow> if l = [] then lastName u else trim l)"
    and ok: "f' \<noteq> [] \<and> l' \<noteq> []"
    and u': "u' = (if f' = firstName u \<and> l' = lastName u then u
                   else u\<lparr>firstName := f', lastName := l', updatedAt := now\<rparr>)"
  shows "updateProfile E now st cu fn ln =
           (st\<lparr>users := map (\<lambda>d. if uid d = uid u then u' else d) (users st)\<rparr>,
            Inr (profile_updated u'))"
proof (cases "f' = firstName u \<and> l' = lastName u")
  case True
  then have same: "u\<lparr>firstName := f', lastName := l'\<rparr> = u"
    by (simp only: names_unchanged)
  have "u' = u"
    unfolding u' using True by simp
  then show ?thesis
    by (simp only: updateProfile_names [OF f f' l'] same save_unchanged [OF v] sum.case
          prod.case)
next
  case False
  then have diff: "u\<lparr>firstName := f', lastName := l'\<rparr> \<noteq> u"
    by (simp only: names_unchanged) simp
  have val: "validate (u\<lparr>firstName := f', lastName := l'\<rparr>)"
    using ok validate_names [OF v, where f = f' and l = l'] by blast
  have pw: "password (u\<lparr>firstName := f', lastName := l'\<rparr>) = password u"
    by simp
  have new: "u' = u\<lparr>firstName := f', lastName := l'\<rparr>\<lparr>updatedAt := now\<rparr>"
    unfolding u' using False by auto
  have i: "uid (u\<lparr>firstName := f', lastName := l'\<rparr>) = uid u"
    by simp
  show ?thesis
    by (simp only: updateProfile_names [OF f f' l'] save_changed [OF val diff pw] sum.case
          prod.case new i)
qed

lemmas profile_defs =
  updateProfile_def findById_def save_def pre_save_def validate_def trim_def is_space_def
  alice_claims_def access_jws_def default_jwt_config_def st0_def alice_def bob_def

text \<open>
  Claim C10, as stated, fails: the schema has \<^verbatim>\<open>timestamps: true\<close>, so saving a
  modified document moves \<open>updatedAt\<close>, a field that is neither of the two names.
\<close>

theorem updateProfile_updatedAt_counterexample:
  "findById (users st0) (userId alice_claims) = Some alice
   \<and> findById (users (fst (updateProfile env0 5000 st0 alice_claims (Some ''Alicia'') None)))
         (userId alice_claims) = Some (alice\<lparr>firstName := ''Alicia'', updatedAt := 5000\<rparr>)
   \<and> updatedAt (alice\<lparr>firstName := ''Alicia'', updatedAt := 5000\<rparr>) \<noteq> updatedAt alice"
  by (simp add: profile_defs Let_def)

text \<open>
  Claim C10, amended. \<open>updateProfile\<close> fails with \<^verbatim>\<open>USER_NOT_FOUND\<close> (404), changing
  nothing, when the user is not stored. For a stored user whose record satisfies the
  schema, let the new first name be the trimmed field of the request, or the stored
  name when the field is absent or the empty string, and the new last name likewise.
  When one of them is empty (a field of white space only) the save fails with a
  \<^verbatim>\<open>ValidationError\<close> and nothing changes. Otherwise the record of the user is replaced
  by one with the two new names, \<open>updatedAt\<close> set to \<open>now\<close> when a name changed and
  kept when none did, and every other field (email, role, \<open>isActive\<close>, password, the
  token fields) as stored; the other records and the cache are untouched.
\<close>

theorem updateProfile_frame:
  "(findById (users st) (userId cu) = None \<longrightarrow>
      updateProfile E now st cu fn ln =
        (st, Inl (AppError ''User not found'' 404 ''USER_NOT_FOUND'')))
   \<and> (\<forall>u f' l' u'.
        findById (users st) (userId cu) = Some u \<and> validate u
        \<and> f' = (case fn of None \<Rightarrow> firstName u
                 | Some f \<Rightarrow> if f = [] then firstName u else trim f)
        \<and> l' = (case ln of None \<Rightarrow> lastName u
                 | Some l \<Rightarrow> if l = [] then lastName u else trim l)
        \<and> u' = (if f' = firstName u \<and> l' = lastName u then u
                 else u\<lparr>firstName := f', lastName := l', updatedAt := now\<rparr>) \<longrightarrow>
        (f' = [] \<or> l' = [] \<longrightarrow>
           updateProfile E now st cu fn ln = (st, Inl (OtherError ''ValidationError'')))
      \<and> (f' \<noteq> [] \<and> l' \<noteq> [] \<longrightarrow>
           updateProfile E now st cu fn ln =
             (st\<lparr>users := map (\<lambda>d. if uid d = uid u then u' else d) (users st)\<rparr>,
              Inr (profile_updated u'))
           \<and> findById (users (fst (updateProfile E now st cu fn ln))) (userId cu) = Some u')
      \<and> u' = u\<lparr>firstName := f', lastName := l', updatedAt := updatedAt u'\<rparr>
      \<and> (fn = None \<or> fn = Some [] \<longrightarrow> firstName u' = firstName u)
      \<and> (ln = None \<or> ln = Some [] \<longrightarrow> lastName u' = lastName u)
      \<and> updatedAt u' =
          (if f' = firstName u \<and> l' = lastName u then updatedAt u else now))"
proof (intro conjI allI impI)
  assume "findById (users st) (userId cu) = None"
  then show "updateProfile E now st cu fn ln =
        (st, Inl (AppError ''User not found'' 404 ''USER_NOT_FOUND''))"
    by (simp add: updateProfile_def)
next
  fix u f' l' u'
  assume a: "findById (users st) (userId cu) = Some u \<and> validate u
        \<and> f' = (case fn of None \<Rightarrow> firstName u
                 | Some f \<Rightarrow> if f = [] then firstName u else trim f)
        \<and> l' = (case ln of None \<Rightarrow> lastName u
                 | Some l \<Rightarrow> if l = [] then lastName u else trim l)
        \<and> u' = (if f' = firstName u \<and> l' = lastName u then u
                 else u\<lparr>firstName := f', lastName := l', updatedAt := now\<rparr>)"
  then have f: "findById (users st) (userId cu) = Some u" and v: "validate u"
    and f': "f' = (case fn of None \<Rightarrow> firstName u
                   | Some f \<Rightarrow> if f = [] then firstName u else trim f)"
    and l': "l' = (case ln of None \<Rightarrow> lastName u
                   | Some l \<Rightarrow> if l = [] then lastName u else trim l)"
    and u': "u' = (if f' = firstName u \<and> l' = lastName u then u
                   else u\<lparr>firstName := f', lastName := l', updatedAt := now\<rparr>)"
    by simp_all
  show "updateProfile E now st cu fn ln = (st, Inl (OtherError ''ValidationError''))"
    if "f' = [] \<or> l' = []"
    by (rule updateProfile_invalid [OF f v f' l' that])
  show "u' = u\<lparr>firstName := f', lastName := l', updatedAt := updatedAt u'\<rparr>"
    by (cases "f' = firstName u \<and> l' = lastName u") (simp_all add: u')
  show "firstName u' = firstName u" if "fn = None \<or> fn = Some []"
    using that by (cases "f' = firstName u \<and> l' = lastName u") (auto simp: u' f')
  show "lastName u' = lastName u" if "ln = None \<or> ln = Some []"
    using that by (cases "f' = firstName u \<and> l' = lastName u") (auto simp: u' l')
  show "updatedAt u' = (if f' = firstName u \<and> l' = lastName u then updatedAt u else now)"
    by (cases "f' = firstName u \<and> l' = lastName u") (auto simp: u')
  assume ok: "f' \<noteq> [] \<and> l' \<noteq> []"
  show r: "updateProfile E now st cu fn ln =
             (st\<lparr>users := map (\<lambda>d. if uid d = uid u then u' else d) (users st)\<rparr>,
              Inr (profile_updated u'))"
    by (rule updateProfile_valid [OF f v f' l' ok u'])
  have i: "uid u = userId cu" using findById_Some [OF f] by simp
  have i': "uid u' = userId cu"
    using i by (cases "f' = firstName u \<and> l' = lastName u") (simp_all add: u')
  show "findById (users (fst (updateProfile E now st cu fn ln))) (userId cu) = Some u'"
    using r findById_replace [OF f i'] i by simp
qed

theorem updateProfile_frame_witness:
  "findById (users st0) (userId alice_claims) = Some alice
   \<and> validate alice
   \<and> updateProfile env0 5000 st0 alice_claims (Some ''Alicia'') (Some []) =
       (st0\<lparr>users := [alice\<lparr>firstName := ''Alicia'', updatedAt := 5000\<rparr>, bob]\<rparr>,
        Inr (profile_updated (alice\<lparr>firstName := ''Alicia'', updatedAt := 5000\<rparr>)))
   \<and> updateProfile env0 5000 st0 alice_claims (Some '' Alice '') None =
       (st0\<lparr>users := [alice, bob]\<rparr>, Inr (profile_updated alice))
   \<and> updateProfile env0 5000 st0 alice_claims (Some ''   '') (Some ''Pleasance'') =
       (st0, Inl (OtherError ''ValidationError''))"
proof -
  have f: "findById (users st0) (userId alice_claims) = Some alice"
    by (simp add: profile_defs)
  have t1: "trim ''Alicia'' = ''Alicia''" and t2: "trim '' Alice '' = ''Alice''"
    and t3: "trim ''   '' = []" and t4: "trim ''Pleasance'' = ''Pleasance''"
    by (simp_all add: trim_def is_space_def)
  have n: "firstName alice = ''Alice''" "lastName alice = ''Liddell''"
    by (simp_all add: alice_def)
  have m: "map (\<lambda>d. if uid d = uid alice then w else d) (users st0) = [w, bob]" for w
    by (simp add: st0_def alice_def bob_def)
  have fa: "''Alicia'' = (case Some ''Alicia'' of None \<Rightarrow> firstName alice
                          | Some f \<Rightarrow> if f = [] then firstName alice else trim f)"
    by (simp add: t1)
  have la: "''Liddell'' = (case Some [] of None \<Rightarrow> lastName alice
                           | Some l \<Rightarrow> if l = [] then lastName alice else trim l)"
    by (simp add: n)
  have ua: "alice\<lparr>firstName := ''Alicia'', updatedAt := 5000\<rparr> =
              (if ''Alicia'' = firstName alice \<and> ''Liddell'' = lastName alice then alice
               else alice\<lparr>firstName := ''Alicia'', lastName := ''Liddell'', updatedAt := 5000\<rparr>)"
    by (simp add: alice_def)
  have oa: "''Alicia'' \<noteq> [] \<and> ''Liddell'' \<noteq> []"
    by simp
  have "updateProfile env0 5000 st0 alice_claims (Some ''Alicia'') (Some []) =
       (st0\<lparr>users := map (\<lambda>d. if uid d = uid alice
                                then alice\<lparr>firstName := ''Alicia'', updatedAt := 5000\<rparr> else d)
                         (users st0)\<rparr>,
        Inr (profile_updated (alice\<lparr>firstName := ''Alicia'', updatedAt := 5000\<rparr>)))"
    using f validate_alice fa la ua oa
      updateProfile_frame [of st0 alice_claims env0 5000 "Some ''Alicia''" "Some []"]
    by blast
  then have a: "updateProfile env0 5000 st0 alice_claims (Some ''Alicia'') (Some []) =
       (st0\<lparr>users := [alice\<lparr>firstName := ''Alicia'', updatedAt := 5000\<rparr>, bob]\<rparr>,
        Inr (profile_updated (alice\<lparr>firstName := ''Alicia'', updatedAt := 5000\<rparr>)))"
    by (simp only: m)
  have fb: "''Alice'' = (case Some '' Alice '' of None \<Rightarrow> firstName alice
                         | Some f \<Rightarrow> if f = [] then firstName alice else trim f)"
    by (simp add: t2)
  have lb: "''Liddell'' = (case None of None \<Rightarrow> lastName alice
                           | Some l \<Rightarrow> if l = [] then lastName alice else trim l)"
    by (simp add: n)
  have ub: "alice =
              (if ''Alice'' = firstName alice \<and> ''Liddell'' = lastName alice then alice
               else alice\<lparr>firstName := ''Alice'', lastName := ''Liddell'', updatedAt := 5000\<rparr>)"
    by (simp add: n)
  have ob: "''Alice'' \<noteq> [] \<and> ''Liddell'' \<noteq> []"
    by simp
  have "updateProfile env0 5000 st0 alice_claims (Some '' Alice '') None =
       (st0\<lparr>users := map (\<lambda>d. if uid d = uid alice then alice else d) (users st0)\<rparr>,
        Inr (profile_updated alice))"
    using f validate_alice fb lb ub ob
      updateProfile_frame [of st0 alice_claims env0 5000 "Some '' Alice ''" None]
    by blast
  then have b: "updateProfile env0 5000 st0 alice_claims (Some '' Alice '') None =
       (st0\<lparr>users := [alice, bob]\<rparr>, Inr (profile_updated alice))"
    by (simp only: m)
  have fc: "[] = (case Some ''   '' of None \<Rightarrow> firstName alice
                  | Some f \<Rightarrow> if f = [] then firstName alice else trim f)"
    by (simp add: t3)
  have lc: "''Pleasance'' = (case Some ''Pleasance'' of None \<Rightarrow> lastName alice
                             | Some l \<Rightarrow> if l = [] then lastName alice else trim l)"
    by (simp add: t4)
  have c: "updateProfile env0 5000 st0 alice_claims (Some ''   '') (Some ''Pleasance'') =
       (st0, Inl (OtherError ''ValidationError''))"
    using f validate_alice fc lc
      updateProfile_frame [of st0 alice_claims env0 5000 "Some ''   ''" "Some ''Pleasance''"]
    by blast
  show ?thesis
    using f validate_alice a b c by (intro conjI)
qed

end
